theory Spec2Isabelle
  imports Complex_Main "HOL-Library.Log_Nat"
begin

section \<open>Ear-clipping triangulation: the data model\<close>

text \<open>
  The development follows the most complete draft of the triangulation module
  (\<^verbatim>\<open>src/unnamed/part_001\<close>): the classes \<^verbatim>\<open>Vertex\<close> and \<^verbatim>\<open>CircularList\<close>, the geometric
  predicates, the ear test, the two drivers and the entry point \<^verbatim>\<open>triangulate\<close>. Two
  other pieces of the repository are modelled next to it, for comparison: the list
  construction of the earlier drafts, and the naive driver of the class
  \<^verbatim>\<open>PolygonTriangulation\<close>.

  JavaScript numbers are IEEE 754 doubles, and every subtraction and product of the
  predicates is rounded as the runtime rounds it.

  A point is a JavaScript array \<^verbatim>\<open>[x, y]\<close>. The code compares points with \<^verbatim>\<open>==\<close> and
  \<^verbatim>\<open>===\<close>, which on arrays is identity of the object and not equality of the coordinates,
  so a point carries the identity of its array next to its two coordinates. No function
  of the module writes into a point.
\<close>

datatype error =
    InvalidInputError          \<comment> \<open>\<^verbatim>\<open>throw new Error("Needs at Least 3 Vertices ...")\<close>, \<^verbatim>\<open>"Input is Null!"\<close>\<close>
  | DegenerateGeometryError    \<comment> \<open>\<^verbatim>\<open>throw new Error("Points provided are collinear ...")\<close>\<close>
  | NoEarFoundError            \<comment> \<open>\<^verbatim>\<open>throw new Error("No ear found - polygon may be invalid")\<close>\<close>
  | TypeError                  \<comment> \<open>the runtime's error on reading a property of \<^verbatim>\<open>null\<close> or \<^verbatim>\<open>undefined\<close>\<close>

section \<open>JavaScript numbers\<close>

text \<open>
  A number is a finite double, one of the two infinities, or \<^verbatim>\<open>NaN\<close>. A finite double is
  held as the real it denotes. The two zeros are one value: the module only subtracts,
  multiplies and compares with 0, and none of these tells \<^verbatim>\<open>-0\<close> from \<^verbatim>\<open>0\<close> other than by
  the sign of a zero result.
\<close>

datatype number = Finite real | PosInfinity | NegInfinity | NaN

text \<open>The nearest integer, a tie going to the even one.\<close>

definition roundHalfEven :: "real \<Rightarrow> int" where
  "roundHalfEven y =
     (let f = \<lfloor>y\<rfloor>; d = y - of_int f
      in if d < 1 / 2 then f else if 1 / 2 < d then f + 1 else if even f then f else f + 1)"

text \<open>The binary exponent of a real other than 0: the \<open>e\<close> with \<open>2 ^ e \<le> \<bar>x\<bar> < 2 ^ (e + 1)\<close>.\<close>

definition exponentOf :: "real \<Rightarrow> int" where
  "exponentOf x = (if 1 \<le> \<bar>x\<bar> then bitlen \<lfloor>\<bar>x\<bar>\<rfloor> - 1 else - bitlen (\<lceil>1 / \<bar>x\<bar>\<rceil> - 1))"

text \<open>
  Rounding of an exact result to a double, to nearest and ties to even: 53 significant
  bits, the spacing of the subnormal range below \<open>2 ^ - 1022\<close>, and an infinity once the
  rounded value reaches \<open>2 ^ 1024\<close>.
\<close>

definition toDouble :: "real \<Rightarrow> number" where
  "toDouble x =
     (if x = 0 then Finite 0
      else
        let e = max (exponentOf x) (- 1022);
            ulp = 2 powi (e - 52);
            r = of_int (roundHalfEven (x / ulp)) * ulp
        in if 2 ^ 1024 \<le> \<bar>r\<bar> then (if 0 < x then PosInfinity else NegInfinity)
           else Finite r)"

text \<open>The sign of a number, 0 for a zero and for \<^verbatim>\<open>NaN\<close>.\<close>

definition signOf :: "number \<Rightarrow> int" where
  "signOf a =
     (case a of
        Finite x \<Rightarrow> if 0 < x then 1 else if x < 0 then - 1 else 0
      | PosInfinity \<Rightarrow> 1
      | NegInfinity \<Rightarrow> - 1
      | NaN \<Rightarrow> 0)"

text \<open>\<^verbatim>\<open>a - b\<close> and \<^verbatim>\<open>a * b\<close>.\<close>

fun jsSub :: "number \<Rightarrow> number \<Rightarrow> number" where
  "jsSub (Finite x) (Finite y) = toDouble (x - y)"
| "jsSub NaN b = NaN"
| "jsSub a NaN = NaN"
| "jsSub PosInfinity PosInfinity = NaN"
| "jsSub NegInfinity NegInfinity = NaN"
| "jsSub PosInfinity b = PosInfinity"
| "jsSub NegInfinity b = NegInfinity"
| "jsSub (Finite x) PosInfinity = NegInfinity"
| "jsSub (Finite x) NegInfinity = PosInfinity"

fun jsMul :: "number \<Rightarrow> number \<Rightarrow> number" where
  "jsMul (Finite x) (Finite y) = toDouble (x * y)"
| "jsMul NaN b = NaN"
| "jsMul a NaN = NaN"
| "jsMul a b =
     (if signOf a * signOf b = 0 then NaN
      else if 0 < signOf a * signOf b then PosInfinity else NegInfinity)"

text \<open>\<^verbatim>\<open>a > 0\<close> and \<^verbatim>\<open>a < 0\<close>, both false on \<^verbatim>\<open>NaN\<close>.\<close>

definition jsGreater0 :: "number \<Rightarrow> bool" where
  "jsGreater0 a = (signOf a = 1)"

definition jsLess0 :: "number \<Rightarrow> bool" where
  "jsLess0 a = (signOf a = - 1)"

section \<open>Points\<close>

record Point =
  ident :: nat    \<comment> \<open>identity of the array object\<close>
  xc :: number    \<comment> \<open>\<^verbatim>\<open>p[0]\<close>\<close>
  yc :: number    \<comment> \<open>\<^verbatim>\<open>p[1]\<close>\<close>

text \<open>\<^verbatim>\<open>p == q\<close> and \<^verbatim>\<open>p === q\<close> on two arrays.\<close>

definition sameObject :: "Point \<Rightarrow> Point \<Rightarrow> bool" where
  "sameObject p q = (ident p = ident q)"

text \<open>Two points at the same place of the plane, whatever their identity.\<close>

definition coincides :: "Point \<Rightarrow> Point \<Rightarrow> bool" where
  "coincides p q = (xc p = xc q \<and> yc p = yc q)"

text \<open>\<^verbatim>\<open>p.slice()\<close>: a fresh copy of the coordinates, as stored in a triangle.\<close>

definition slice :: "Point \<Rightarrow> number \<times> number" where
  "slice p = (xc p, yc p)"

type_synonym Triangle = "(number \<times> number) \<times> (number \<times> number) \<times> (number \<times> number)"

section \<open>Geometric predicates\<close>

definition cross :: "number \<times> number \<Rightarrow> number \<times> number \<Rightarrow> number" where
  "cross v1 v2 = jsSub (jsMul (fst v1) (snd v2)) (jsMul (snd v1) (fst v2))"

text \<open>\<^verbatim>\<open>getOrientation\<close>: 1 is CCW, -1 is CW, 0 is collinear.\<close>

definition getOrientation :: "Point \<Rightarrow> Point \<Rightarrow> Point \<Rightarrow> int" where
  "getOrientation p1 p2 p3 =
     (let v1 = (jsSub (xc p1) (xc p2), jsSub (yc p1) (yc p2));
          v2 = (jsSub (xc p3) (xc p2), jsSub (yc p3) (yc p2));
          res = cross v1 v2
      in if jsGreater0 res then 1 else if jsLess0 res then - 1 else 0)"

definition isConvex :: "Point \<Rightarrow> Point \<Rightarrow> Point \<Rightarrow> bool" where
  "isConvex a b c = (getOrientation a b c = 1)"

definition isWithinTriangle :: "Point \<Rightarrow> Point \<Rightarrow> Point \<Rightarrow> Point \<Rightarrow> error + bool" where
  "isWithinTriangle point a b c =
     (if getOrientation a b c = 0 then Inl DegenerateGeometryError
      else if sameObject point a \<or> sameObject point b \<or> sameObject point c then Inr True
      else
        let o1 = getOrientation point a b;
            o2 = getOrientation point b c;
            o3 = getOrientation point c a
        in if o1 = o2 \<and> o2 = o3 then Inr True
           else if o1 * o2 * o3 = 0 then Inr (o1 = o2 \<or> o1 = o3 \<or> o2 = o3)
           else Inr False)"

text \<open>
  The two ways the specification lets a point lie in a triangle, on the three orientations
  of the point against the edges \<open>ab\<close>, \<open>bc\<close> and \<open>ca\<close>.
\<close>

definition allSameSign :: "int \<Rightarrow> int \<Rightarrow> int \<Rightarrow> bool" where
  "allSameSign o1 o2 o3 = (o1 \<noteq> 0 \<and> o1 = o2 \<and> o2 = o3)"

definition oneCollinearOthersMatch :: "int \<Rightarrow> int \<Rightarrow> int \<Rightarrow> bool" where
  "oneCollinearOthersMatch o1 o2 o3 =
     ((o1 = 0 \<and> o2 \<noteq> 0 \<and> o2 = o3) \<or>
      (o2 = 0 \<and> o1 \<noteq> 0 \<and> o1 = o3) \<or>
      (o3 = 0 \<and> o1 \<noteq> 0 \<and> o1 = o2))"

section \<open>Vertices and the circular list\<close>

text \<open>
  A \<^verbatim>\<open>Vertex\<close> is an object with identity: the boundary list and the convex and concave
  lists of the optimized driver hold references to the same vertices, and
  \<^verbatim>\<open>next\<close> and \<^verbatim>\<open>prev\<close> are fields of the vertex, not of a list. The model keeps all
  vertices in one store indexed by their reference; \<open>None\<close> stands for \<^verbatim>\<open>null\<close> and for
  \<^verbatim>\<open>undefined\<close>, which the code does not tell apart (\<^verbatim>\<open>== null\<close>, \<^verbatim>\<open>!x\<close>).
  Every reference denotes a vertex, as in JavaScript, so the store is a total function.
\<close>

type_synonym ref = nat

record Vertex =
  v_point :: Point
  v_next :: "ref option"
  v_prev :: "ref option"
  v_isConvex :: bool
  v_isEar :: bool

type_synonym heap = "ref \<Rightarrow> Vertex"

text \<open>\<^verbatim>\<open>size\<close> is a JavaScript number: \<^verbatim>\<open>size--\<close> on an empty list gives -1.\<close>

record CircularList =
  l_head :: "ref option"
  l_size :: int

text \<open>\<^verbatim>\<open>new Vertex(point)\<close> and \<^verbatim>\<open>new CircularList()\<close>.\<close>

definition newVertex :: "Point \<Rightarrow> Vertex" where
  "newVertex p = \<lparr>v_point = p, v_next = None, v_prev = None, v_isConvex = False, v_isEar = False\<rparr>"

definition newCircularList :: CircularList where
  "newCircularList = \<lparr>l_head = None, l_size = 0\<rparr>"

text \<open>
  \<^verbatim>\<open>CircularList.insert(newNode, previous)\<close>. A caller that leaves \<^verbatim>\<open>previous\<close> out passes
  \<^verbatim>\<open>undefined\<close>, here \<open>None\<close>; reading \<^verbatim>\<open>previous.next\<close> then throws. The assignments are
  made in the order of the source, one store update each.
\<close>

definition CircularList_insert ::
  "heap \<Rightarrow> CircularList \<Rightarrow> ref \<Rightarrow> ref option \<Rightarrow> error + heap \<times> CircularList" where
  "CircularList_insert h l newNode previous =
     (if l_head l = None then
        let h1 = h(newNode := (h newNode)\<lparr>v_next := Some newNode\<rparr>);
            h2 = h1(newNode := (h1 newNode)\<lparr>v_prev := Some newNode\<rparr>)
        in Inr (h2, l\<lparr>l_head := Some newNode, l_size := l_size l + 1\<rparr>)
      else
        case previous of
          None \<Rightarrow> Inl TypeError
        | Some p \<Rightarrow>
            let nxt = v_next (h p);
                h1 = h(p := (h p)\<lparr>v_next := Some newNode\<rparr>);
                h2 = h1(newNode := (h1 newNode)\<lparr>v_prev := Some p\<rparr>);
                h3 = h2(newNode := (h2 newNode)\<lparr>v_next := nxt\<rparr>)
            in case nxt of
                 None \<Rightarrow> Inl TypeError
               | Some n \<Rightarrow>
                   Inr (h3(n := (h3 n)\<lparr>v_prev := Some newNode\<rparr>), l\<lparr>l_size := l_size l + 1\<rparr>))"

text \<open>\<^verbatim>\<open>CircularList.delete(node)\<close>.\<close>

definition CircularList_delete ::
  "heap \<Rightarrow> CircularList \<Rightarrow> ref option \<Rightarrow> error + heap \<times> CircularList" where
  "CircularList_delete h l node =
     (case node of
        None \<Rightarrow> Inl InvalidInputError
      | Some nd \<Rightarrow>
          if l_size l = 1 \<and> l_head l = Some nd then Inr (h, l\<lparr>l_size := 0, l_head := None\<rparr>)
          else
            let l1 = (if l_head l = Some nd then l\<lparr>l_head := v_next (h nd)\<rparr> else l)
            in case v_prev (h nd) of
                 None \<Rightarrow> Inl TypeError
               | Some p \<Rightarrow>
                   let nxt = v_next (h nd);
                       h1 = h(p := (h p)\<lparr>v_next := nxt\<rparr>)
                   in case nxt of
                        None \<Rightarrow> Inl TypeError
                      | Some n \<Rightarrow>
                          Inr (h1(n := (h1 n)\<lparr>v_prev := Some p\<rparr>), l1\<lparr>l_size := l_size l1 - 1\<rparr>))"

text \<open>
  \<^verbatim>\<open>createDoublyLinkedList(points)\<close>. The vertex made for \<^verbatim>\<open>points[i]\<close> gets the reference
  \<open>i\<close>. The loop calls \<^verbatim>\<open>vertices.insert(newVertex)\<close>, with no second argument.
\<close>

definition emptyHeap :: heap where
  "emptyHeap = (\<lambda>r. newVertex \<lparr>ident = 0, xc = Finite 0, yc = Finite 0\<rparr>)"

fun createLoop :: "heap \<Rightarrow> CircularList \<Rightarrow> ref \<Rightarrow> Point list \<Rightarrow> error + heap \<times> CircularList" where
  "createLoop h vertices i [] = Inr (h, vertices)"
| "createLoop h vertices i (p # ps) =
     (case CircularList_insert (h(i := newVertex p)) vertices i None of
        Inl e \<Rightarrow> Inl e
      | Inr (h', vertices') \<Rightarrow> createLoop h' vertices' (Suc i) ps)"

definition createDoublyLinkedList :: "Point list \<Rightarrow> error + heap \<times> CircularList" where
  "createDoublyLinkedList points =
     (if length points < 3 then Inl InvalidInputError
      else createLoop emptyHeap newCircularList 0 points)"

section \<open>The ear test\<close>

text \<open>\<^verbatim>\<open>r.point\<close> for a reference \<open>r\<close> that may be \<^verbatim>\<open>null\<close>.\<close>

definition pointOf :: "heap \<Rightarrow> ref option \<Rightarrow> error + Point" where
  "pointOf h r = (case r of None \<Rightarrow> Inl TypeError | Some q \<Rightarrow> Inr (v_point (h q)))"

text \<open>
  The loop of \<^verbatim>\<open>isEar\<close> over \<^verbatim>\<open>otherPoints\<close>: \<open>cur\<close> is the node \<^verbatim>\<open>curr\<close> looked at, the number
  counts the iterations left of \<^verbatim>\<open>for (let i = 0; i < otherPoints.size; i++)\<close>.
\<close>

fun isEarLoop :: "heap \<Rightarrow> Point \<Rightarrow> Point \<Rightarrow> Point \<Rightarrow> ref option \<Rightarrow> nat \<Rightarrow> error + bool" where
  "isEarLoop h a b c cur 0 = Inr True"
| "isEarLoop h a b c cur (Suc n) =
     (case cur of
        None \<Rightarrow> Inl TypeError
      | Some cr \<Rightarrow>
          let point = v_point (h cr)
          in if sameObject point a \<or> sameObject point b \<or> sameObject point c
             then isEarLoop h a b c (v_next (h cr)) n
             else case isWithinTriangle point a b c of
                    Inl e \<Rightarrow> Inl e
                  | Inr inside \<Rightarrow>
                      if inside then Inr False else isEarLoop h a b c (v_next (h cr)) n)"

text \<open>
  \<^verbatim>\<open>isEar(a, b, c, otherPoints)\<close>; a call with three arguments leaves \<^verbatim>\<open>otherPoints\<close>
  \<^verbatim>\<open>undefined\<close>, here \<open>None\<close>.
\<close>

definition isEar :: "heap \<Rightarrow> Point \<Rightarrow> Point \<Rightarrow> Point \<Rightarrow> CircularList option \<Rightarrow> error + bool" where
  "isEar h a b c otherPoints =
     (if \<not> isConvex a b c then Inr False
      else case otherPoints of
             None \<Rightarrow> Inl TypeError
           | Some l \<Rightarrow> isEarLoop h a b c (l_head l) (nat (l_size l)))"

section \<open>The naive driver\<close>

text \<open>
  One run of the body of \<^verbatim>\<open>while (vertices.size > 3)\<close> in \<^verbatim>\<open>naiveEarCutting\<close>. The ear
  test is called as \<^verbatim>\<open>isEar(prev, curr, next)\<close>.
\<close>

definition naiveBody ::
  "heap \<Rightarrow> CircularList \<Rightarrow> Triangle list \<Rightarrow> error + heap \<times> CircularList \<times> Triangle list" where
  "naiveBody h vertices triangles =
     (case l_head vertices of
        None \<Rightarrow> Inl TypeError
      | Some vertex \<Rightarrow>
          let curr = v_point (h vertex)
          in case pointOf h (v_prev (h vertex)) of
               Inl e \<Rightarrow> Inl e
             | Inr prev \<Rightarrow>
                 case pointOf h (v_next (h vertex)) of
                   Inl e \<Rightarrow> Inl e
                 | Inr nxt \<Rightarrow>
                     case isEar h prev curr nxt None of
                       Inl e \<Rightarrow> Inl e
                     | Inr ear \<Rightarrow>
                         if ear then
                           case CircularList_delete h vertices (Some vertex) of
                             Inl e \<Rightarrow> Inl e
                           | Inr (h', vertices') \<Rightarrow>
                               Inr (h', vertices',
                                    triangles @ [(slice prev, slice curr, slice nxt)])
                         else Inr (h, vertices, triangles))"

text \<open>The loop itself may run forever: \<open>None\<close> is the run that does not return.\<close>

partial_function (option) naiveLoop ::
  "heap \<Rightarrow> CircularList \<Rightarrow> Triangle list
     \<Rightarrow> (error + heap \<times> CircularList \<times> Triangle list) option" where
  "naiveLoop h vertices triangles =
     (if l_size vertices > 3 then
        case naiveBody h vertices triangles of
          Inl e \<Rightarrow> Some (Inl e)
        | Inr (h', vertices', triangles') \<Rightarrow> naiveLoop h' vertices' triangles'
      else Some (Inr (h, vertices, triangles)))"

text \<open>
  The closing triangle of both drivers, from \<^verbatim>\<open>vertices.head\<close>, \<^verbatim>\<open>vertices.head.next\<close>
  and \<^verbatim>\<open>vertices.head.next.next\<close>.
\<close>

definition lastTriangle :: "heap \<Rightarrow> CircularList \<Rightarrow> error + Triangle" where
  "lastTriangle h vertices =
     (case l_head vertices of
        None \<Rightarrow> Inl TypeError
      | Some hnode \<Rightarrow>
          let a = v_point (h hnode)
          in case v_next (h hnode) of
               None \<Rightarrow> Inl TypeError
             | Some n1 \<Rightarrow>
                 let b = v_point (h n1)
                 in case v_next (h n1) of
                      None \<Rightarrow> Inl TypeError
                    | Some n2 \<Rightarrow>
                        let c = v_point (h n2) in Inr (slice a, slice b, slice c))"

definition naiveEarCutting :: "Point list \<Rightarrow> (error + Triangle list) option" where
  "naiveEarCutting points =
     (if length points < 3 then Some (Inl InvalidInputError)
      else
        case createDoublyLinkedList points of
          Inl e \<Rightarrow> Some (Inl e)
        | Inr (h, vertices) \<Rightarrow>
            (case naiveLoop h vertices [] of
               None \<Rightarrow> None
             | Some (Inl e) \<Rightarrow> Some (Inl e)
             | Some (Inr (h', vertices', triangles)) \<Rightarrow>
                 (case lastTriangle h' vertices' of
                    Inl e \<Rightarrow> Some (Inl e)
                  | Inr t \<Rightarrow> Some (Inr (triangles @ [t])))))"

section \<open>The optimized driver\<close>

text \<open>
  The variables of \<^verbatim>\<open>optimizedEarCutting\<close>: the store of the vertices, the three lists
  \<^verbatim>\<open>vertices\<close>, \<^verbatim>\<open>concaveVertices\<close>, \<^verbatim>\<open>convexVertices\<close>, and \<^verbatim>\<open>triangles\<close>. The three
  lists are list objects of their own, over the same vertices and so over the same
  \<^verbatim>\<open>next\<close> and \<^verbatim>\<open>prev\<close> fields.
\<close>

record optState =
  o_heap :: heap
  o_vertices :: CircularList
  o_concave :: CircularList
  o_convex :: CircularList
  o_triangles :: "Triangle list"

text \<open>
  ``Fill the concave and convex lists'': the number counts the iterations left of
  \<^verbatim>\<open>for (let i = 0; i < vertices.size; i++)\<close>, \<open>cur\<close> is \<^verbatim>\<open>curr\<close>.
\<close>

fun fillLists :: "nat \<Rightarrow> ref option \<Rightarrow> optState \<Rightarrow> error + optState" where
  "fillLists 0 cur s = Inr s"
| "fillLists (Suc n) cur s =
     (case cur of
        None \<Rightarrow> Inl TypeError
      | Some c \<Rightarrow>
          let h = o_heap s
          in case pointOf h (v_prev (h c)) of
               Inl e \<Rightarrow> Inl e
             | Inr pp \<Rightarrow>
                 case pointOf h (v_next (h c)) of
                   Inl e \<Rightarrow> Inl e
                 | Inr np \<Rightarrow>
                     if isConvex pp (v_point (h c)) np then
                       case CircularList_insert (h(c := (h c)\<lparr>v_isConvex := True\<rparr>))
                              (o_convex s) c None of
                         Inl e \<Rightarrow> Inl e
                       | Inr (h', l') \<Rightarrow>
                           fillLists n (v_next (h' c)) (s\<lparr>o_heap := h', o_convex := l'\<rparr>)
                     else
                       case CircularList_insert (h(c := (h c)\<lparr>v_isConvex := False\<rparr>))
                              (o_concave s) c None of
                         Inl e \<Rightarrow> Inl e
                       | Inr (h', l') \<Rightarrow>
                           fillLists n (v_next (h' c)) (s\<lparr>o_heap := h', o_concave := l'\<rparr>))"

text \<open>
  \<^verbatim>\<open>node.isEar = isEar(node.prev.point, node.point, node.next.point, otherPoints)\<close>, for
  a \<open>node\<close> that may be \<^verbatim>\<open>null\<close>.
\<close>

definition updateEar :: "ref option \<Rightarrow> CircularList \<Rightarrow> heap \<Rightarrow> error + heap" where
  "updateEar node otherPoints h =
     (case node of
        None \<Rightarrow> Inl TypeError
      | Some c \<Rightarrow>
          case pointOf h (v_prev (h c)) of
            Inl e \<Rightarrow> Inl e
          | Inr pp \<Rightarrow>
              case pointOf h (v_next (h c)) of
                Inl e \<Rightarrow> Inl e
              | Inr np \<Rightarrow>
                  case isEar h pp (v_point (h c)) np (Some otherPoints) of
                    Inl e \<Rightarrow> Inl e
                  | Inr ear \<Rightarrow> Inr (h(c := (h c)\<lparr>v_isEar := ear\<rparr>)))"

text \<open>``Mark initial ears'', over \<^verbatim>\<open>convexVertices\<close> and against \<^verbatim>\<open>concaveVertices\<close>.\<close>

fun markEars :: "nat \<Rightarrow> ref option \<Rightarrow> optState \<Rightarrow> error + optState" where
  "markEars 0 cur s = Inr s"
| "markEars (Suc n) cur s =
     (case cur of
        None \<Rightarrow> Inl TypeError
      | Some c \<Rightarrow>
          case updateEar (Some c) (o_concave s) (o_heap s) of
            Inl e \<Rightarrow> Inl e
          | Inr h' \<Rightarrow> markEars n (v_next (h' c)) (s\<lparr>o_heap := h'\<rparr>))"

text \<open>
  ``Update the convex/concave status of the neighbors'': the block run for \<^verbatim>\<open>prev\<close> and
  then, with the same text, for \<^verbatim>\<open>next\<close>. Both blocks compare the \<^verbatim>\<open>prev\<close> field of
  their node with \<^verbatim>\<open>convexVertices.head.prev\<close>, and both insert with no predecessor.
\<close>

definition updateConvexity :: "ref option \<Rightarrow> optState \<Rightarrow> error + optState" where
  "updateConvexity node s =
     (case node of
        None \<Rightarrow> Inl TypeError
      | Some c \<Rightarrow>
          let h = o_heap s
          in case pointOf h (v_prev (h c)) of
               Inl e \<Rightarrow> Inl e
             | Inr pp \<Rightarrow>
                 case pointOf h (v_next (h c)) of
                   Inl e \<Rightarrow> Inl e
                 | Inr np \<Rightarrow>
                     if isConvex pp (v_point (h c)) np then
                       let h1 = h(c := (h c)\<lparr>v_isConvex := True\<rparr>)
                       in if (case l_head (o_convex s) of
                                None \<Rightarrow> True
                              | Some hnode \<Rightarrow> v_prev (h1 c) = v_prev (h1 hnode))
                          then case CircularList_insert h1 (o_convex s) c None of
                                 Inl e \<Rightarrow> Inl e
                               | Inr (h', l') \<Rightarrow> Inr (s\<lparr>o_heap := h', o_convex := l'\<rparr>)
                          else Inr (s\<lparr>o_heap := h1\<rparr>)
                     else
                       case CircularList_insert (h(c := (h c)\<lparr>v_isConvex := False\<rparr>))
                              (o_concave s) c None of
                         Inl e \<Rightarrow> Inl e
                       | Inr (h', l') \<Rightarrow> Inr (s\<lparr>o_heap := h', o_concave := l'\<rparr>))"

text \<open>The body of \<^verbatim>\<open>if (curr.isEar)\<close> up to its \<^verbatim>\<open>break\<close>, for the ear tip \<open>c\<close>.\<close>

definition clipEar :: "ref \<Rightarrow> optState \<Rightarrow> error + optState" where
  "clipEar c s =
     (let h = o_heap s
      in case pointOf h (v_prev (h c)) of
           Inl e \<Rightarrow> Inl e
         | Inr pp \<Rightarrow>
             case pointOf h (v_next (h c)) of
               Inl e \<Rightarrow> Inl e
             | Inr np \<Rightarrow>
                 case CircularList_delete h (o_vertices s) (Some c) of
                   Inl e \<Rightarrow> Inl e
                 | Inr (h1, vertices') \<Rightarrow>
                     case CircularList_delete h1 (o_convex s) (Some c) of
                       Inl e \<Rightarrow> Inl e
                     | Inr (h2, convex') \<Rightarrow>
                         let prev = v_prev (h2 c);
                             nxt = v_next (h2 c);
                             s2 = s\<lparr>o_heap := h2, o_vertices := vertices', o_convex := convex',
                                    o_triangles := o_triangles s
                                      @ [(slice pp, slice (v_point (h c)), slice np)]\<rparr>
                         in case updateConvexity prev s2 of
                              Inl e \<Rightarrow> Inl e
                            | Inr s3 \<Rightarrow>
                                case updateConvexity nxt s3 of
                                  Inl e \<Rightarrow> Inl e
                                | Inr s4 \<Rightarrow>
                                    case updateEar prev (o_vertices s4) (o_heap s4) of
                                      Inl e \<Rightarrow> Inl e
                                    | Inr h5 \<Rightarrow>
                                        case updateEar nxt (o_vertices s4) h5 of
                                          Inl e \<Rightarrow> Inl e
                                        | Inr h6 \<Rightarrow> Inr (s4\<lparr>o_heap := h6\<rparr>))"

text \<open>
  The scan \<^verbatim>\<open>for (let i = 0; i < convexVertices.size; i++)\<close> inside the main loop: it
  clips the first vertex whose \<^verbatim>\<open>isEar\<close> flag is set and stops, or ends with the state
  as it was.
\<close>

fun scanConvex :: "nat \<Rightarrow> ref option \<Rightarrow> optState \<Rightarrow> error + optState" where
  "scanConvex 0 cur s = Inr s"
| "scanConvex (Suc n) cur s =
     (case cur of
        None \<Rightarrow> Inl TypeError
      | Some c \<Rightarrow>
          if v_isEar (o_heap s c) then clipEar c s
          else scanConvex n (v_next (o_heap s c)) s)"

partial_function (option) optimizedLoop :: "optState \<Rightarrow> (error + optState) option" where
  "optimizedLoop s =
     (if l_size (o_vertices s) > 3 then
        case scanConvex (nat (l_size (o_convex s))) (l_head (o_convex s)) s of
          Inl e \<Rightarrow> Some (Inl e)
        | Inr s' \<Rightarrow> optimizedLoop s'
      else Some (Inr s))"

definition optimizedEarCutting :: "Point list \<Rightarrow> (error + Triangle list) option" where
  "optimizedEarCutting points =
     (if length points < 3 then Some (Inl InvalidInputError)
      else
        case createDoublyLinkedList points of
          Inl e \<Rightarrow> Some (Inl e)
        | Inr (h, vertices) \<Rightarrow>
            let s0 = \<lparr>o_heap = h, o_vertices = vertices, o_concave = newCircularList,
                       o_convex = newCircularList, o_triangles = []\<rparr>
            in case fillLists (nat (l_size vertices)) (l_head vertices) s0 of
                 Inl e \<Rightarrow> Some (Inl e)
               | Inr s1 \<Rightarrow>
                   (case markEars (nat (l_size (o_convex s1))) (l_head (o_convex s1)) s1 of
                      Inl e \<Rightarrow> Some (Inl e)
                    | Inr s2 \<Rightarrow>
                        (case optimizedLoop s2 of
                           None \<Rightarrow> None
                         | Some (Inl e) \<Rightarrow> Some (Inl e)
                         | Some (Inr s3) \<Rightarrow>
                             (case lastTriangle (o_heap s3) (o_vertices s3) of
                                Inl e \<Rightarrow> Some (Inl e)
                              | Inr t \<Rightarrow> Some (Inr (o_triangles s3 @ [t]))))))"

section \<open>The entry point\<close>

text \<open>
  \<^verbatim>\<open>triangulate(polygon, triangulationMethod = naiveEarCutting)\<close>: \<open>None\<close> is the call
  that leaves the method out.
\<close>

definition triangulate ::
  "Point list \<Rightarrow> (Point list \<Rightarrow> (error + Triangle list) option) option
     \<Rightarrow> (error + Triangle list) option" where
  "triangulate polygon triangulationMethod =
     (case triangulationMethod of
        None \<Rightarrow> naiveEarCutting polygon
      | Some m \<Rightarrow> m polygon)"

section \<open>Reading a list, and example data\<close>

text \<open>
  The nodes a loop over a list visits: \<open>n\<close> steps along \<^verbatim>\<open>next\<close> from \<open>cur\<close>, or \<open>None\<close>
  when a \<^verbatim>\<open>null\<close> link is met on the way. The candidate collection handed to \<^verbatim>\<open>isEar\<close> is
  the points of \<open>nodesFrom h (l_head l) (nat (l_size l))\<close>.
\<close>

fun nodesFrom :: "heap \<Rightarrow> ref option \<Rightarrow> nat \<Rightarrow> ref list option" where
  "nodesFrom h cur 0 = Some []"
| "nodesFrom h cur (Suc n) =
     (case cur of
        None \<Rightarrow> None
      | Some c \<Rightarrow>
          (case nodesFrom h (v_next (h c)) n of
             None \<Rightarrow> None
           | Some rs \<Rightarrow> Some (c # rs)))"

text \<open>
  The fixtures of the specification, each point an array of its own with finite
  coordinates.
\<close>

definition pt :: "nat \<Rightarrow> real \<Rightarrow> real \<Rightarrow> Point" where
  "pt i x y = \<lparr>ident = i, xc = Finite x, yc = Finite y\<rparr>"

definition square :: "Point list" where
  "square = [pt 0 0 0, pt 1 4 0, pt 2 4 4, pt 3 0 4]"

definition collinear3 :: "Point list" where
  "collinear3 = [pt 0 0 0, pt 1 1 0, pt 2 2 0]"

definition twoPoints :: "Point list" where
  "twoPoints = [pt 0 0 0, pt 1 4 0]"

definition arrow :: "Point list" where
  "arrow = [pt 0 0 0, pt 1 2 1, pt 2 4 0, pt 3 4 4, pt 4 0 4]"

text \<open>
  A boundary as \<^verbatim>\<open>createDoublyLinkedList\<close> is documented to return it: the vertex of
  \<open>ps ! i\<close> at reference \<open>i\<close>, linked to \<open>i + 1\<close> and \<open>i - 1\<close> modulo the length. It
  is the state the loops of the drivers are written for, and is used to run them.
\<close>

definition ringHeap :: "Point list \<Rightarrow> heap" where
  "ringHeap ps =
     (\<lambda>i. if i < length ps
          then \<lparr>v_point = ps ! i,
                v_next = Some ((i + 1) mod length ps),
                v_prev = Some ((i + length ps - 1) mod length ps),
                v_isConvex = False, v_isEar = False\<rparr>
          else emptyHeap i)"

definition ringList :: "Point list \<Rightarrow> CircularList" where
  "ringList ps = \<lparr>l_head = Some 0, l_size = int (length ps)\<rparr>"


text \<open>
  A boundary given as a closed ring, \<^verbatim>\<open>[[4,0],[0,0],[0,4],[4,0]]\<close>: its last point is
  another array at the coordinates of the first.
\<close>

definition closedRing :: "Point list" where
  "closedRing = [pt 0 4 0, pt 1 0 0, pt 2 0 4, pt 3 4 0]"

text \<open>
  A triangle and a point of the line through its vertices \<open>a\<close> and \<open>b\<close>, one unit in the
  last place before \<open>a\<close>: \<^verbatim>\<open>[1,1]\<close>, \<^verbatim>\<open>[5,1]\<close>, \<^verbatim>\<open>[3,5]\<close> and \<^verbatim>\<open>[0.9999999999999999,1]\<close>.
\<close>

definition triA :: Point where
  "triA = pt 0 1 1"

definition triB :: Point where
  "triB = pt 1 5 1"

definition triC :: Point where
  "triC = pt 2 3 5"

definition nearA :: Point where
  "nearA = pt 3 (1 - 1 / 2 ^ 53) 1"

text \<open>
  The orientation of the specification, the sign of the exact cross product of
  \<open>p1 - p2\<close> and \<open>p3 - p2\<close>, to compare \<^verbatim>\<open>getOrientation\<close> with.
\<close>

definition exactOrientation :: "real \<times> real \<Rightarrow> real \<times> real \<Rightarrow> real \<times> real \<Rightarrow> int" where
  "exactOrientation p1 p2 p3 =
     (let res = (fst p1 - fst p2) * (snd p3 - snd p2) - (snd p1 - snd p2) * (fst p3 - fst p2)
      in if res > 0 then 1 else if res < 0 then - 1 else 0)"
section \<open>The list construction of the earlier drafts\<close>

text \<open>
  \<^verbatim>\<open>createDoublyLinkedList\<close> as the earlier drafts have it (\<^verbatim>\<open>src/unnamed/part_000\<close> and
  \<^verbatim>\<open>part_002\<close>): \<^verbatim>\<open>points.map((point) => new Vertex(point))\<close>, then one loop that sets
  \<^verbatim>\<open>vertices[i].next = vertices[(i + 1) % vertices.length]\<close> and
  \<^verbatim>\<open>vertices[i].prev = vertices[(i - 1 + vertices.length) % vertices.length]\<close>. It returns
  the array of the vertices, here the references \<open>0, \<dots>, n - 1\<close> in the order of the points.
  In the loop \<open>i - 1 + n\<close> is never negative, so it is \<open>i + n - 1\<close> on the naturals.
\<close>

definition mapNewVertex :: "Point list \<Rightarrow> heap" where
  "mapNewVertex points = (\<lambda>i. if i < length points then newVertex (points ! i) else emptyHeap i)"

definition linkVertex :: "nat \<Rightarrow> nat \<Rightarrow> heap \<Rightarrow> heap" where
  "linkVertex n i h =
     (let h1 = h(i := (h i)\<lparr>v_next := Some ((i + 1) mod n)\<rparr>)
      in h1(i := (h1 i)\<lparr>v_prev := Some ((i + n - 1) mod n)\<rparr>))"

definition createDoublyLinkedList_array :: "Point list \<Rightarrow> error + heap \<times> ref list" where
  "createDoublyLinkedList_array points =
     (if length points < 3 then Inl InvalidInputError
      else Inr (fold (linkVertex (length points)) [0..<length points] (mapNewVertex points),
                [0..<length points]))"

text \<open>\<open>n\<close> steps along \<^verbatim>\<open>next\<close> from a reference, \<open>None\<close> once a \<^verbatim>\<open>null\<close> link was read.\<close>

fun followNext :: "heap \<Rightarrow> nat \<Rightarrow> ref option \<Rightarrow> ref option" where
  "followNext h 0 r = r"
| "followNext h (Suc n) r = (case r of None \<Rightarrow> None | Some q \<Rightarrow> followNext h n (v_next (h q)))"

section \<open>The class PolygonTriangulation\<close>

text \<open>
  The second implementation of the repository (\<^verbatim>\<open>src/triangulation.js\<close>, the classes
  \<^verbatim>\<open>Point\<close>, \<^verbatim>\<open>Triangle\<close> and \<^verbatim>\<open>PolygonTriangulation\<close>): the points are objects with the
  fields \<^verbatim>\<open>x\<close> and \<^verbatim>\<open>y\<close>, a vertex is an index into \<^verbatim>\<open>this.points\<close>, and the boundary is
  the array \<^verbatim>\<open>remainingVertices\<close> of the indices still there. Reading an array outside
  its range gives \<^verbatim>\<open>undefined\<close>, here \<open>None\<close>; reading a field of \<^verbatim>\<open>undefined\<close> throws.
\<close>

record PointXY =
  p_x :: number
  p_y :: number

type_synonym TriangleXY = "PointXY option \<times> PointXY option \<times> PointXY option"

text \<open>
  \<^verbatim>\<open>a % b\<close> on integers, with the sign of \<open>a\<close>; \<open>None\<close> is \<^verbatim>\<open>NaN\<close>. \<^verbatim>\<open>xs[k]\<close> for an index
  that may be \<^verbatim>\<open>NaN\<close> or \<^verbatim>\<open>undefined\<close>. \<^verbatim>\<open>xs.indexOf(v)\<close>, which is -1 when \<open>v\<close> is not there.
\<close>

definition jsRem :: "int \<Rightarrow> int \<Rightarrow> int option" where
  "jsRem a b = (if b = 0 then None else Some (sgn a * (\<bar>a\<bar> mod \<bar>b\<bar>)))"

definition elemAt :: "'a list \<Rightarrow> int option \<Rightarrow> 'a option" where
  "elemAt xs k =
     (case k of
        None \<Rightarrow> None
      | Some j \<Rightarrow> if 0 \<le> j \<and> j < int (length xs) then Some (xs ! nat j) else None)"

fun indexOf :: "nat list \<Rightarrow> nat \<Rightarrow> int" where
  "indexOf [] v = - 1"
| "indexOf (x # xs) v = (if x = v then 0 else if indexOf xs v < 0 then - 1 else indexOf xs v + 1)"

text \<open>\<^verbatim>\<open>this.points[v]\<close> for a vertex \<open>v\<close> that may be \<^verbatim>\<open>undefined\<close>.\<close>

definition pointsAt :: "PointXY list \<Rightarrow> nat option \<Rightarrow> PointXY option" where
  "pointsAt points v = elemAt points (map_option int v)"

definition isTriangleOrientedCCW ::
  "PointXY option \<Rightarrow> PointXY option \<Rightarrow> PointXY option \<Rightarrow> error + bool" where
  "isTriangleOrientedCCW p1 p2 p3 =
     (case (p1, p2, p3) of
        (Some a, Some b, Some c) \<Rightarrow>
          Inr (jsGreater0
                 (jsSub (jsMul (jsSub (p_x b) (p_x a)) (jsSub (p_y c) (p_y a)))
                    (jsMul (jsSub (p_y b) (p_y a)) (jsSub (p_x c) (p_x a)))))
      | _ \<Rightarrow> Inl TypeError)"

text \<open>The local function \<^verbatim>\<open>sign\<close> of \<^verbatim>\<open>pointInTriangle\<close>.\<close>

definition signXY :: "PointXY \<Rightarrow> PointXY \<Rightarrow> PointXY \<Rightarrow> number" where
  "signXY p1 p2 p3 =
     jsSub (jsMul (jsSub (p_x p1) (p_x p3)) (jsSub (p_y p2) (p_y p3)))
       (jsMul (jsSub (p_x p2) (p_x p3)) (jsSub (p_y p1) (p_y p3)))"

definition pointInTriangle ::
  "PointXY option \<Rightarrow> PointXY option \<Rightarrow> PointXY option \<Rightarrow> PointXY option \<Rightarrow> error + bool" where
  "pointInTriangle p a b c =
     (case (p, a, b, c) of
        (Some p', Some a', Some b', Some c') \<Rightarrow>
          let d1 = signXY p' a' b';
              d2 = signXY p' b' c';
              d3 = signXY p' c' a';
              hasNeg = (jsLess0 d1 \<or> jsLess0 d2 \<or> jsLess0 d3);
              hasPos = (jsGreater0 d1 \<or> jsGreater0 d2 \<or> jsGreater0 d3)
          in Inr (\<not> (hasNeg \<and> hasPos))
      | _ \<Rightarrow> Inl TypeError)"

text \<open>
  The loop \<^verbatim>\<open>for (const j of vertices)\<close> of \<^verbatim>\<open>isEar\<close>, over the vertices still to visit.
\<close>

fun otherPointInside ::
  "PointXY list \<Rightarrow> nat list \<Rightarrow> nat \<Rightarrow> nat option \<Rightarrow> nat option \<Rightarrow> error + bool" where
  "otherPointInside points [] i prev nxt = Inr True"
| "otherPointInside points (j # js) i prev nxt =
     (if j \<noteq> i \<and> Some j \<noteq> prev \<and> Some j \<noteq> nxt then
        case pointInTriangle (pointsAt points (Some j)) (pointsAt points prev)
               (pointsAt points (Some i)) (pointsAt points nxt) of
          Inl e \<Rightarrow> Inl e
        | Inr inside \<Rightarrow> if inside then Inr False else otherPointInside points js i prev nxt
      else otherPointInside points js i prev nxt)"

text \<open>\<^verbatim>\<open>isEar(i, remainingVertices)\<close>; \<open>None\<close> is the call without the second argument.\<close>

definition PolygonTriangulation_isEar ::
  "PointXY list \<Rightarrow> nat \<Rightarrow> nat list option \<Rightarrow> error + bool" where
  "PolygonTriangulation_isEar points i remainingVertices =
     (let vertices = (case remainingVertices of None \<Rightarrow> [0..<length points] | Some r \<Rightarrow> r);
          idx = (case remainingVertices of None \<Rightarrow> int i | Some r \<Rightarrow> indexOf vertices i);
          prev = elemAt vertices
                   (jsRem (idx - 1 + int (length vertices)) (int (length vertices)));
          nxt = elemAt vertices (jsRem (idx + 1) (int (length vertices)))
      in case isTriangleOrientedCCW (pointsAt points prev) (pointsAt points (Some i))
                (pointsAt points nxt) of
           Inl e \<Rightarrow> Inl e
         | Inr ccw \<Rightarrow>
             if \<not> ccw then Inr False else otherPointInside points vertices i prev nxt)"

text \<open>
  The scan \<^verbatim>\<open>for (let i = 0; i < remainingVertices.length; i++)\<close> of
  \<^verbatim>\<open>naiveTriangulation\<close>, from index \<open>i\<close> on: the index of the first ear, or \<open>None\<close> when
  the scan reaches the end with \<^verbatim>\<open>foundEar\<close> still false.
\<close>

function findEar :: "PointXY list \<Rightarrow> nat list \<Rightarrow> nat \<Rightarrow> error + nat option" where
  "findEar points remainingVertices i =
     (if i < length remainingVertices then
        case PolygonTriangulation_isEar points (remainingVertices ! i) (Some remainingVertices) of
          Inl e \<Rightarrow> Inl e
        | Inr ear \<Rightarrow> if ear then Inr (Some i) else findEar points remainingVertices (i + 1)
      else Inr None)"
  by pat_completeness auto
termination
  by (relation "measure (\<lambda>(points, remainingVertices, i). length remainingVertices - i)") auto

declare findEar.simps [simp del]

text \<open>\<^verbatim>\<open>remainingVertices.splice(i, 1)\<close>.\<close>

definition splice1 :: "nat list \<Rightarrow> nat \<Rightarrow> nat list" where
  "splice1 xs i = take i xs @ drop (Suc i) xs"

text \<open>
  \<^verbatim>\<open>while (remainingVertices.length > 3)\<close>. The loop is defined without a proof that it
  ends; that it always returns is a lemma below.
\<close>

partial_function (option) clipLoop ::
  "PointXY list \<Rightarrow> nat list \<Rightarrow> TriangleXY list \<Rightarrow> (error + nat list \<times> TriangleXY list) option"
  where
  "clipLoop points remainingVertices triangles =
     (if length remainingVertices > 3 then
        case findEar points remainingVertices 0 of
          Inl e \<Rightarrow> Some (Inl e)
        | Inr None \<Rightarrow> Some (Inl NoEarFoundError)
        | Inr (Some i) \<Rightarrow>
            let n = int (length remainingVertices);
                vertex = elemAt remainingVertices (Some (int i));
                prev = elemAt remainingVertices (jsRem (int i - 1 + n) n);
                nxt = elemAt remainingVertices (jsRem (int i + 1) n)
            in clipLoop points (splice1 remainingVertices i)
                 (triangles @ [(pointsAt points prev, pointsAt points vertex, pointsAt points nxt)])
      else Some (Inr (remainingVertices, triangles)))"

definition PolygonTriangulation_naiveTriangulation ::
  "PointXY list \<Rightarrow> (error + TriangleXY list) option" where
  "PolygonTriangulation_naiveTriangulation points =
     (if length points < 3 then Some (Inr [])
      else
        case clipLoop points [0..<length points] [] of
          None \<Rightarrow> None
        | Some (Inl e) \<Rightarrow> Some (Inl e)
        | Some (Inr (remainingVertices, triangles)) \<Rightarrow>
            Some (Inr (triangles @
              [(pointsAt points (elemAt remainingVertices (Some 0)),
                pointsAt points (elemAt remainingVertices (Some 1)),
                pointsAt points (elemAt remainingVertices (Some 2)))])))"

text \<open>The exact area of a triangle with finite corners, for the fixtures.\<close>

definition triangleArea :: "TriangleXY \<Rightarrow> real option" where
  "triangleArea t =
     (case t of
        (Some a, Some b, Some c) \<Rightarrow>
          (case (p_x a, p_y a, p_x b, p_y b, p_x c, p_y c) of
             (Finite x1, Finite y1, Finite x2, Finite y2, Finite x3, Finite y3) \<Rightarrow>
               Some (\<bar>(x2 - x1) * (y3 - y1) - (y2 - y1) * (x3 - x1)\<bar> / 2)
           | _ \<Rightarrow> None)
      | _ \<Rightarrow> None)"

definition xy :: "real \<Rightarrow> real \<Rightarrow> PointXY" where
  "xy x y = \<lparr>p_x = Finite x, p_y = Finite y\<rparr>"

definition squareXY :: "PointXY list" where
  "squareXY = [xy 0 0, xy 4 0, xy 4 4, xy 0 4]"

definition collinearXY :: "PointXY list" where
  "collinearXY = [xy 0 0, xy 1 0, xy 2 0]"

section \<open>Properties of the numbers\<close>

text \<open>An integer of at most 53 bits is a double, and rounding leaves it as it is.\<close>

lemma roundHalfEven_of_int: "roundHalfEven (of_int m) = m"
  by (simp add: roundHalfEven_def)

lemma exponentOf_of_int:
  assumes "k \<noteq> 0" "\<bar>k\<bar> < 2 ^ 53"
  shows "0 \<le> exponentOf (of_int k) \<and> exponentOf (of_int k) \<le> 52"
proof -
  have a1: "1 \<le> \<bar>k\<bar>" using assms(1) by simp
  have e: "exponentOf (of_int k) = bitlen \<bar>k\<bar> - 1"
  proof -
    have "(1::real) \<le> \<bar>of_int k\<bar>" using a1 by (metis of_int_1_le_iff of_int_abs)
    moreover have "\<lfloor>\<bar>of_int k :: real\<bar>\<rfloor> = \<bar>k\<bar>" by (metis floor_of_int of_int_abs)
    ultimately show ?thesis by (simp add: exponentOf_def)
  qed
  have "1 \<le> bitlen \<bar>k\<bar>" using a1 by (simp add: bitlen_ge_iff_power)
  moreover have "bitlen \<bar>k\<bar> \<le> 53" using assms(2) by (simp add: bitlen_le_iff_power)
  ultimately show ?thesis using e by simp
qed

lemma toDouble_of_int:
  assumes "\<bar>k\<bar> < 2 ^ 53"
  shows "toDouble (of_int k) = Finite (of_int k)"
proof (cases "k = 0")
  case True
  then show ?thesis by (simp add: toDouble_def)
next
  case False
  define e where "e = exponentOf (of_int k)"
  define n where "n = nat (52 - e)"
  have eb: "0 \<le> e" "e \<le> 52" using exponentOf_of_int[OF False assms] by (simp_all add: e_def)
  have m: "max e (- 1022) = e" using eb by simp
  have en: "e - 52 = - int n" using eb by (simp add: n_def)
  have ulp: "(2::real) powi (e - 52) = 1 / 2 ^ n"
    unfolding en by (simp add: power_int_minus field_simps)
  have q: "real_of_int k / (1 / 2 ^ n) = of_int (k * 2 ^ n)" by simp
  have r: "of_int (roundHalfEven (real_of_int k / (1 / 2 ^ n))) * (1 / 2 ^ n) = real_of_int k"
    unfolding q roundHalfEven_of_int by simp
  have "\<bar>real_of_int k\<bar> < 2 ^ 53"
    using assms by (metis of_int_abs of_int_less_numeral_power_cancel_iff)
  also have "(2::real) ^ 53 \<le> 2 ^ 1024" by (rule power_increasing) simp_all
  finally have small: "\<not> 2 ^ 1024 \<le> \<bar>real_of_int k\<bar>" by simp
  have nz: "real_of_int k \<noteq> 0" using False by simp
  show ?thesis
    unfolding toDouble_def Let_def e_def[symmetric] m ulp r
    using small nz by simp
qed

lemma toDouble_0 [simp]: "toDouble 0 = Finite 0"
  by (simp add: toDouble_def)

lemma toDouble_1 [simp]: "toDouble 1 = Finite 1"
  using toDouble_of_int[of 1] by simp

lemma toDouble_neg_1 [simp]: "toDouble (- 1) = Finite (- 1)"
  using toDouble_of_int[of "- 1"] by simp

lemma toDouble_numeral [simp]:
  "numeral w < (2::int) ^ 53 \<Longrightarrow> toDouble (numeral w) = Finite (numeral w)"
  using toDouble_of_int[of "numeral w"] by simp

lemma toDouble_neg_numeral [simp]:
  "numeral w < (2::int) ^ 53 \<Longrightarrow> toDouble (- numeral w) = Finite (- numeral w)"
  using toDouble_of_int[of "- numeral w"] by simp

text \<open>\<^verbatim>\<open>a - a\<close> is 0, or \<^verbatim>\<open>NaN\<close> when \<open>a\<close> is not finite.\<close>

lemma jsSub_self: "jsSub a a = Finite 0 \<or> jsSub a a = NaN"
  by (cases a) simp_all

section \<open>Properties of the predicates\<close>

lemma getOrientation_range: "getOrientation p q r \<in> {- 1, 0, 1}"
  by (simp add: getOrientation_def Let_def)

lemma getOrientation_same: "getOrientation p p p = 0"
proof -
  have x: "jsSub (xc p) (xc p) = Finite 0 \<or> jsSub (xc p) (xc p) = NaN" by (rule jsSub_self)
  have y: "jsSub (yc p) (yc p) = Finite 0 \<or> jsSub (yc p) (yc p) = NaN" by (rule jsSub_self)
  from x y show ?thesis
    by (auto simp: getOrientation_def cross_def Let_def jsGreater0_def jsLess0_def signOf_def)
qed

text \<open>
  What \<^verbatim>\<open>isWithinTriangle\<close> returns, whatever the arithmetic: next to the two cases its
  comments name, it answers true whenever two of the three orientations are 0. The
  comment in the source rules that case out (\<^verbatim>\<open>for sure there will not be 2 zeroes\<close>) for
  a point that is none of the three vertices.
\<close>

lemma sign_cases:
  fixes o1 o2 o3 :: int
  assumes "o1 \<in> {- 1, 0, 1}" "o2 \<in> {- 1, 0, 1}" "o3 \<in> {- 1, 0, 1}"
  shows "(if o1 = o2 \<and> o2 = o3 then True
          else if o1 * o2 * o3 = 0 then (o1 = o2 \<or> o1 = o3 \<or> o2 = o3) else False)
         = (allSameSign o1 o2 o3 \<or> oneCollinearOthersMatch o1 o2 o3
            \<or> (o1 = 0 \<and> o2 = 0) \<or> (o2 = 0 \<and> o3 = 0) \<or> (o3 = 0 \<and> o1 = 0))"
  using assms unfolding allSameSign_def oneCollinearOthersMatch_def by auto

lemma isWithinTriangle_branches:
  "isWithinTriangle point a b c =
     (if getOrientation a b c = 0 then Inl DegenerateGeometryError
      else if sameObject point a \<or> sameObject point b \<or> sameObject point c then Inr True
      else Inr (allSameSign (getOrientation point a b) (getOrientation point b c)
                  (getOrientation point c a)
                \<or> oneCollinearOthersMatch (getOrientation point a b) (getOrientation point b c)
                  (getOrientation point c a)
                \<or> (getOrientation point a b = 0 \<and> getOrientation point b c = 0)
                \<or> (getOrientation point b c = 0 \<and> getOrientation point c a = 0)
                \<or> (getOrientation point c a = 0 \<and> getOrientation point a b = 0)))"
proof -
  let ?o1 = "getOrientation point a b" and ?o2 = "getOrientation point b c"
    and ?o3 = "getOrientation point c a"
  note sc = sign_cases[OF getOrientation_range getOrientation_range getOrientation_range,
      of point a b point b c point c a]
  have "isWithinTriangle point a b c =
          (if getOrientation a b c = 0 then Inl DegenerateGeometryError
           else if sameObject point a \<or> sameObject point b \<or> sameObject point c then Inr True
           else Inr (if ?o1 = ?o2 \<and> ?o2 = ?o3 then True
               else if ?o1 * ?o2 * ?o3 = 0 then (?o1 = ?o2 \<or> ?o1 = ?o3 \<or> ?o2 = ?o3)
               else False))"
    by (simp add: isWithinTriangle_def Let_def)
  then show ?thesis unfolding sc .
qed

text \<open>
  Claim C3 asks that \<^verbatim>\<open>isWithinTriangle(point, a, b, c)\<close>, for a triangle that is not
  collinear and a point that is none of its vertices, return true exactly when the three
  orientations of the point against \<open>ab\<close>, \<open>bc\<close>, \<open>ca\<close> have the same sign or exactly one
  is collinear and the other two match, and false in every remaining case. The code
  returns true in a remaining case. Take the triangle \<open>a\<close> = \<^verbatim>\<open>[1,1]\<close>, \<open>b\<close> = \<^verbatim>\<open>[5,1]\<close>,
  \<open>c\<close> = \<^verbatim>\<open>[3,5]\<close> and the point \<^verbatim>\<open>[0.9999999999999999,1]\<close>, a double that lies outside the
  triangle. The triangle is not collinear and the point is none of its vertices, by
  identity or by coordinates. The orientations that \<^verbatim>\<open>getOrientation\<close> computes are 0, -1
  and 0: the third is the cross product \<^verbatim>\<open>8 - 8\<close> after the difference
  \<^verbatim>\<open>0.9999999999999999 - 3\<close> is rounded to -2, where the sign of the exact cross product
  is 1. The three do not have the same sign, and it is not the case that exactly one is
  collinear and the other two match; the call returns true.
\<close>

theorem isWithinTriangle_near_vertex:
  "toDouble (1 - 1 / 2 ^ 53) = Finite (1 - 1 / 2 ^ 53)
   \<and> getOrientation triA triB triC = - 1
   \<and> \<not> sameObject nearA triA \<and> \<not> sameObject nearA triB \<and> \<not> sameObject nearA triC
   \<and> \<not> coincides nearA triA \<and> \<not> coincides nearA triB \<and> \<not> coincides nearA triC
   \<and> getOrientation nearA triA triB = 0
   \<and> getOrientation nearA triB triC = - 1
   \<and> getOrientation nearA triC triA = 0
   \<and> exactOrientation (1 - 1 / 2 ^ 53, 1) (3, 5) (1, 1) = 1
   \<and> \<not> allSameSign (getOrientation nearA triA triB) (getOrientation nearA triB triC)
         (getOrientation nearA triC triA)
   \<and> \<not> oneCollinearOthersMatch (getOrientation nearA triA triB) (getOrientation nearA triB triC)
         (getOrientation nearA triC triA)
   \<and> isWithinTriangle nearA triA triB triC = Inr True"
proof -
  have d: "toDouble (1 - 1 / 2 ^ 53) = Finite (1 - 1 / 2 ^ 53)" by code_simp
  have sa: "jsSub (xc nearA) (xc triA) = Finite (- (1 / 2 ^ 53))" by code_simp
  have sb: "jsSub (xc nearA) (xc triB) = Finite (- 4)" by code_simp
  have sc: "jsSub (xc nearA) (xc triC) = Finite (- 2)" by code_simp
  have abc: "getOrientation triA triB triC = - 1"
    by (simp add: getOrientation_def cross_def Let_def triA_def triB_def triC_def pt_def
        jsGreater0_def jsLess0_def signOf_def)
  have o1: "getOrientation nearA triA triB = 0"
    unfolding getOrientation_def cross_def Let_def fst_conv snd_conv sa
    by (simp add: nearA_def triA_def triB_def pt_def jsGreater0_def jsLess0_def signOf_def)
  have o2: "getOrientation nearA triB triC = - 1"
    unfolding getOrientation_def cross_def Let_def fst_conv snd_conv sb
    by (simp add: nearA_def triB_def triC_def pt_def jsGreater0_def jsLess0_def signOf_def)
  have o3: "getOrientation nearA triC triA = 0"
    unfolding getOrientation_def cross_def Let_def fst_conv snd_conv sc
    by (simp add: nearA_def triA_def triC_def pt_def jsGreater0_def jsLess0_def signOf_def)
  have ex: "exactOrientation (1 - 1 / 2 ^ 53, 1) (3, 5) (1, 1) = 1"
    by (simp add: exactOrientation_def)
  have ids: "\<not> sameObject nearA triA \<and> \<not> sameObject nearA triB \<and> \<not> sameObject nearA triC"
    by (simp add: sameObject_def nearA_def triA_def triB_def triC_def pt_def)
  have co: "\<not> coincides nearA triA \<and> \<not> coincides nearA triB \<and> \<not> coincides nearA triC"
    by (simp add: coincides_def nearA_def triA_def triB_def triC_def pt_def)
  have w: "isWithinTriangle nearA triA triB triC = Inr True"
    using abc o1 o2 o3 ids by (simp add: isWithinTriangle_def)
  show ?thesis
    using d abc o1 o2 o3 ex ids co w
    by (simp add: allSameSign_def oneCollinearOthersMatch_def)
qed

section \<open>The example boundary\<close>

lemma ringHeap_fields:
  assumes "i < length ps"
  shows "v_point (ringHeap ps i) = ps ! i"
    and "v_next (ringHeap ps i) = Some ((i + 1) mod length ps)"
    and "v_prev (ringHeap ps i) = Some ((i + length ps - 1) mod length ps)"
    and "v_isConvex (ringHeap ps i) = False" and "v_isEar (ringHeap ps i) = False"
  using assms by (simp_all add: ringHeap_def)

lemma length_square: "length square = 4"
  by (simp add: square_def)

lemma square_next:
  "v_next (ringHeap square 0) = Some 1" "v_next (ringHeap square (Suc 0)) = Some 2"
  "v_next (ringHeap square 2) = Some 3" "v_next (ringHeap square 3) = Some 0"
  by (simp_all add: ringHeap_fields length_square)

lemma square_prev:
  "v_prev (ringHeap square 0) = Some 3" "v_prev (ringHeap square (Suc 0)) = Some 0"
  "v_prev (ringHeap square 2) = Some 1" "v_prev (ringHeap square 3) = Some 2"
  by (simp_all add: ringHeap_fields length_square)

lemma square_points:
  "v_point (ringHeap square 0) = pt 0 0 0" "v_point (ringHeap square (Suc 0)) = pt 1 4 0"
  "v_point (ringHeap square 2) = pt 2 4 4" "v_point (ringHeap square 3) = pt 3 0 4"
  by (simp_all add: ringHeap_fields length_square) (simp_all add: square_def)

lemma nodesFrom_square:
  "nodesFrom (ringHeap square) (l_head (ringList square)) (nat (l_size (ringList square)))
     = Some [0, 1, 2, 3]"
proof -
  have e: "nodesFrom (ringHeap square) (Some 0) (Suc (Suc (Suc (Suc 0)))) = Some [0, 1, 2, 3]"
    by (simp add: square_next)
  have n: "nat (l_size (ringList square)) = Suc (Suc (Suc (Suc 0)))"
    by (simp add: ringList_def length_square)
  show ?thesis unfolding n using e by (simp add: ringList_def)
qed

text \<open>
  With \<^verbatim>\<open>getOrientation\<close> as written, the corners of the square fixture taken in the order
  of the input turn the other way: none of them passes \<^verbatim>\<open>isConvex\<close>.
\<close>

lemma square_corner_not_convex: "\<not> isConvex (pt i 0 4) (pt j 0 0) (pt k 4 0)"
  by (simp add: isConvex_def getOrientation_def cross_def pt_def jsGreater0_def jsLess0_def
      signOf_def)

lemma square_corner_reversed_convex: "isConvex (pt i 4 0) (pt j 0 0) (pt k 0 4)"
  by (simp add: isConvex_def getOrientation_def cross_def pt_def jsGreater0_def jsLess0_def
      signOf_def)

section \<open>Building the boundary list\<close>

lemma insert_no_predecessor:
  "CircularList_insert h l c None =
     (if l_head l = None
      then Inr (h(c := (h c)\<lparr>v_next := Some c, v_prev := Some c\<rparr>),
                l\<lparr>l_head := Some c, l_size := l_size l + 1\<rparr>)
      else Inl TypeError)"
  by (simp add: CircularList_insert_def Let_def)

text \<open>
  The first \<^verbatim>\<open>vertices.insert(newVertex)\<close> fills the empty list; the second finds a head,
  reads \<^verbatim>\<open>previous.next\<close> on the argument that was not passed, and throws.
\<close>

lemma createLoop_second_insert:
  "createLoop h newCircularList i (p # q # ps) = Inl TypeError"
  by (simp add: insert_no_predecessor newCircularList_def)

lemma createDoublyLinkedList_TypeError:
  assumes "3 \<le> length points"
  shows "createDoublyLinkedList points = Inl TypeError"
proof -
  from assms obtain p q ps where "points = p # q # ps"
    by (cases points; cases "tl points") auto
  moreover have "\<not> length points < 3" using assms by simp
  ultimately show ?thesis
    by (simp only: createDoublyLinkedList_def createLoop_second_insert if_False)
qed

text \<open>
  Claim C6 asks that \<^verbatim>\<open>createDoublyLinkedList\<close>, on \<open>k \<ge> 3\<close> points, return the circular
  list of size \<open>k\<close>, and fail for \<open>k < 3\<close>. The code does the second and not the first:
  for fewer than three points it throws the error for invalid input, and for three or
  more it throws the runtime's TypeError at the second insertion, so that no list is ever
  returned.
\<close>

theorem createDoublyLinkedList_never_returns:
  "createDoublyLinkedList points =
     (if length points < 3 then Inl InvalidInputError else Inl TypeError)"
  by (simp add: createDoublyLinkedList_TypeError) (simp add: createDoublyLinkedList_def)

subsection \<open>The list construction of the earlier drafts\<close>

lemma fold_linkVertex:
  "fold (linkVertex n) [0..<m] h0 =
     (\<lambda>i. if i < m then (h0 i)\<lparr>v_next := Some ((i + 1) mod n), v_prev := Some ((i + n - 1) mod n)\<rparr>
          else h0 i)"
proof (induction m)
  case 0
  then show ?case by simp
next
  case (Suc m)
  have "fold (linkVertex n) [0..<Suc m] h0 = linkVertex n m (fold (linkVertex n) [0..<m] h0)"
    by simp
  also have "\<dots> = linkVertex n m
     (\<lambda>i. if i < m then (h0 i)\<lparr>v_next := Some ((i + 1) mod n), v_prev := Some ((i + n - 1) mod n)\<rparr>
          else h0 i)"
    by (simp only: Suc.IH)
  also have "\<dots> =
     (\<lambda>i. if i < Suc m
          then (h0 i)\<lparr>v_next := Some ((i + 1) mod n), v_prev := Some ((i + n - 1) mod n)\<rparr>
          else h0 i)"
    by (rule ext) (simp add: linkVertex_def Let_def less_Suc_eq)
  finally show ?case .
qed

lemma createDoublyLinkedList_array_ring:
  assumes "3 \<le> length points"
  shows "createDoublyLinkedList_array points = Inr (ringHeap points, [0..<length points])"
proof -
  have "fold (linkVertex (length points)) [0..<length points] (mapNewVertex points)
          = ringHeap points"
    by (rule ext) (simp add: fold_linkVertex mapNewVertex_def ringHeap_def newVertex_def)
  with assms show ?thesis by (simp add: createDoublyLinkedList_array_def)
qed

lemma followNext_ring:
  assumes "i < length ps"
  shows "followNext (ringHeap ps) m (Some i) = Some ((i + m) mod length ps)"
  using assms
proof (induction m arbitrary: i)
  case 0
  then show ?case by simp
next
  case (Suc m)
  have "0 < length ps" using Suc.prems by linarith
  then have lt: "(i + 1) mod length ps < length ps" by simp
  have "followNext (ringHeap ps) (Suc m) (Some i)
          = followNext (ringHeap ps) m (Some ((i + 1) mod length ps))"
    using Suc.prems by (simp add: ringHeap_fields)
  also have "\<dots> = Some (((i + 1) mod length ps + m) mod length ps)"
    by (rule Suc.IH[OF lt])
  also have "((i + 1) mod length ps + m) mod length ps = (i + Suc m) mod length ps"
    by (simp add: mod_add_left_eq)
  finally show ?case .
qed

lemma ring_succ_pred:
  assumes "1 < n" and "i < n"
  shows "((i + 1) mod n + n - 1) mod n = i" and "((i + n - 1) mod n + 1) mod n = (i::nat)"
proof -
  show "((i + 1) mod n + n - 1) mod n = i"
  proof (cases "i + 1 = n")
    case True
    then have "(i + 1) mod n = 0" by simp
    then have "((i + 1) mod n + n - 1) mod n = (n - 1) mod n" by simp
    also have "\<dots> = n - 1" using assms(1) by (intro mod_less) arith
    also have "\<dots> = i" using True by arith
    finally show ?thesis .
  next
    case False
    then have lt: "i + 1 < n" using assms(2) by arith
    then have "(i + 1) mod n = i + 1" by (rule mod_less)
    then have "((i + 1) mod n + n - 1) mod n = (i + n) mod n" by simp
    also have "\<dots> = i mod n" by (rule mod_add_self2)
    also have "\<dots> = i" using assms(2) by (rule mod_less)
    finally show ?thesis .
  qed
  show "((i + n - 1) mod n + 1) mod n = i"
  proof (cases "i = 0")
    case True
    have "(n - 1) mod n = n - 1" using assms(1) by (intro mod_less) arith
    then have "((i + n - 1) mod n + 1) mod n = (n - 1 + 1) mod n" using True by simp
    also have "n - 1 + 1 = n" using assms(1) by arith
    also have "n mod n = 0" by simp
    finally show ?thesis using True by simp
  next
    case False
    then obtain k where k: "i = Suc k" by (cases i) auto
    have "(i + n - 1) mod n = (k + n) mod n" by (simp add: k)
    also have "\<dots> = k mod n" by (rule mod_add_self2)
    also have "\<dots> = k" using assms(2) k by (intro mod_less) arith
    finally have "((i + n - 1) mod n + 1) mod n = (k + 1) mod n" by simp
    also have "\<dots> = i mod n" by (simp add: k)
    also have "\<dots> = i" using assms(2) by (rule mod_less)
    finally show ?thesis .
  qed
qed

text \<open>
  The construction of the earlier drafts does build the ring: for three or more
  points it returns one vertex per point, in the order of the input; from every vertex,
  as many steps along \<^verbatim>\<open>next\<close> as there are points lead back to it; and \<^verbatim>\<open>prev\<close> undoes
  \<^verbatim>\<open>next\<close>, and \<^verbatim>\<open>next\<close> undoes \<^verbatim>\<open>prev\<close>. Its result is the \<open>ringHeap\<close> used above.
\<close>

lemma createDoublyLinkedList_array_circular:
  assumes "3 \<le> length points" and "i < length points"
  shows "\<exists>h vs. createDoublyLinkedList_array points = Inr (h, vs)
           \<and> vs = [0..<length points]
           \<and> v_point (h i) = points ! i
           \<and> followNext h (length points) (Some i) = Some i
           \<and> (\<exists>j < length points. v_next (h i) = Some j \<and> v_prev (h j) = Some i)
           \<and> (\<exists>j < length points. v_prev (h i) = Some j \<and> v_next (h j) = Some i)"
proof -
  let ?n = "length points"
  let ?h = "ringHeap points"
  have n: "0 < ?n" "1 < ?n" using assms(1) by linarith+
  have a: "(i + 1) mod ?n < ?n" "(i + ?n - 1) mod ?n < ?n" using n by simp_all
  note sp = ring_succ_pred[OF n(2) assms(2)]
  have 1: "createDoublyLinkedList_array points = Inr (?h, [0..<?n])"
    by (rule createDoublyLinkedList_array_ring[OF assms(1)])
  have 2: "v_point (?h i) = points ! i" by (rule ringHeap_fields(1)[OF assms(2)])
  have 3: "followNext ?h ?n (Some i) = Some i"
    using followNext_ring[OF assms(2), of ?n] assms(2) by simp
  have 4: "v_next (?h i) = Some ((i + 1) mod ?n)" by (rule ringHeap_fields(2)[OF assms(2)])
  have 5: "v_prev (?h ((i + 1) mod ?n)) = Some i"
    using ringHeap_fields(3)[OF a(1)] sp(1) by simp
  have 6: "v_prev (?h i) = Some ((i + ?n - 1) mod ?n)" by (rule ringHeap_fields(3)[OF assms(2)])
  have 7: "v_next (?h ((i + ?n - 1) mod ?n)) = Some i"
    using ringHeap_fields(2)[OF a(2)] sp(2) by simp
  show ?thesis
    using 1 2 3 4 5 6 7 a by blast
qed

section \<open>The entry point and the two drivers\<close>

lemma naiveEarCutting_TypeError:
  "3 \<le> length points \<Longrightarrow> naiveEarCutting points = Some (Inl TypeError)"
  by (simp add: naiveEarCutting_def createDoublyLinkedList_TypeError)

lemma optimizedEarCutting_TypeError:
  "3 \<le> length points \<Longrightarrow> optimizedEarCutting points = Some (Inl TypeError)"
  by (simp add: optimizedEarCutting_def createDoublyLinkedList_TypeError)

text \<open>
  Claim C1 asks for \<open>n - 2\<close> triangles on every simple polygon of \<open>n \<ge> 3\<close> points, with
  either method. In the code no input of three or more points gets that far: with the
  naive driver, with the optimized driver and with the default method, \<^verbatim>\<open>triangulate\<close>
  ends in the TypeError thrown while the boundary list is built.
\<close>

theorem triangulate_three_or_more_points:
  assumes "3 \<le> length polygon"
  shows "triangulate polygon (Some naiveEarCutting) = Some (Inl TypeError)
       \<and> triangulate polygon (Some optimizedEarCutting) = Some (Inl TypeError)
       \<and> triangulate polygon None = Some (Inl TypeError)"
  using assms
  by (simp add: triangulate_def naiveEarCutting_TypeError optimizedEarCutting_TypeError)

theorem triangulate_three_or_more_points_witness:
  "3 \<le> length arrow
   \<and> triangulate arrow (Some naiveEarCutting) = Some (Inl TypeError)
   \<and> triangulate arrow (Some optimizedEarCutting) = Some (Inl TypeError)
   \<and> triangulate arrow None = Some (Inl TypeError)"
proof -
  have n: "3 \<le> length arrow" by (simp add: arrow_def)
  from triangulate_three_or_more_points[OF n] n show ?thesis by simp
qed

text \<open>
  Claim C7 asks for two triangles of total area 16 on the square fixture. The code, called
  as \<^verbatim>\<open>triangulate(square)\<close>, returns no triangle: it throws the TypeError of the list
  construction.
\<close>

theorem triangulate_square:
  "triangulate square None = Some (Inl TypeError)"
  by (simp add: triangulate_def naiveEarCutting_TypeError length_square)

text \<open>
  Claim C8 asks for the error for degenerate geometry, or the one for invalid input, on
  three collinear points. The code throws neither: both drivers end in the TypeError of
  the list construction.
\<close>

theorem triangulate_collinear3:
  "triangulate collinear3 None = Some (Inl TypeError)
   \<and> triangulate collinear3 (Some optimizedEarCutting) = Some (Inl TypeError)"
  by (simp add: triangulate_def naiveEarCutting_TypeError optimizedEarCutting_TypeError
      collinear3_def)

text \<open>
  Claim C9. On fewer than three points \<^verbatim>\<open>triangulate\<close> fails with the error for invalid
  input and returns no triangle list, with the default method, with the naive driver and
  with the optimized driver.
\<close>

theorem triangulate_too_few_points:
  assumes "length polygon < 3"
  shows "triangulate polygon None = Some (Inl InvalidInputError)
       \<and> triangulate polygon (Some naiveEarCutting) = Some (Inl InvalidInputError)
       \<and> triangulate polygon (Some optimizedEarCutting) = Some (Inl InvalidInputError)"
  using assms by (simp add: triangulate_def naiveEarCutting_def optimizedEarCutting_def)

theorem triangulate_too_few_points_witness:
  "length twoPoints < 3
   \<and> triangulate twoPoints None = Some (Inl InvalidInputError)
   \<and> triangulate twoPoints (Some naiveEarCutting) = Some (Inl InvalidInputError)
   \<and> triangulate twoPoints (Some optimizedEarCutting) = Some (Inl InvalidInputError)"
proof -
  have n: "length twoPoints < 3" by (simp add: twoPoints_def)
  from triangulate_too_few_points[OF n] n show ?thesis by simp
qed

section \<open>The loop of the naive driver\<close>

lemma isConvex_same: "isConvex p p p = False"
  by (simp add: isConvex_def getOrientation_same)

text \<open>Called with three arguments, the ear test never answers true.\<close>

lemma isEar_undefined:
  "isEar h a b c None = (if isConvex a b c then Inl TypeError else Inr False)"
  by (simp add: isEar_def)

lemma pointOf_error: "pointOf h r = Inl e \<Longrightarrow> e = TypeError"
  by (auto simp: pointOf_def split: option.splits)

text \<open>So one run of the loop body throws, or changes nothing at all.\<close>

lemma naiveBody_no_progress:
  "naiveBody h vertices triangles = Inl TypeError
   \<or> naiveBody h vertices triangles = Inr (h, vertices, triangles)"
  by (auto simp: naiveBody_def isEar_undefined Let_def dest: pointOf_error
      split: option.splits sum.splits)

lemma naiveBody_linked:
  assumes "l_head vertices = Some v" "v_prev (h v) = Some p" "v_next (h v) = Some n"
  shows "naiveBody h vertices triangles =
           (if isConvex (v_point (h p)) (v_point (h v)) (v_point (h n)) then Inl TypeError
            else Inr (h, vertices, triangles))"
  using assms by (simp add: naiveBody_def pointOf_def isEar_undefined)

text \<open>
  A run of the loop that returns did not start in a state that the body leaves as it is:
  by induction on the runs that return.
\<close>

lemma naiveLoop_not_stuck:
  assumes "naiveLoop h vertices triangles = Some y"
  shows "\<not> (l_size vertices > 3 \<and> naiveBody h vertices triangles = Inr (h, vertices, triangles))"
proof (rule naiveLoop.raw_induct
    [where P = "\<lambda>h vertices triangles y.
                  \<not> (l_size vertices > 3
                     \<and> naiveBody h vertices triangles = Inr (h, vertices, triangles))",
     OF _ assms])
  fix loop h vertices triangles y
  assume IH: "\<And>h vertices triangles y. loop h vertices triangles = Some y \<Longrightarrow>
                \<not> (l_size vertices > 3
                   \<and> naiveBody h vertices triangles = Inr (h, vertices, triangles))"
    and run: "(if 3 < l_size vertices
               then case naiveBody h vertices triangles of
                      Inl e \<Rightarrow> Some (Inl e)
                    | Inr (h', vertices', triangles') \<Rightarrow> loop h' vertices' triangles'
               else Some (Inr (h, vertices, triangles))) = Some y"
  show "\<not> (l_size vertices > 3
           \<and> naiveBody h vertices triangles = Inr (h, vertices, triangles))"
  proof
    assume stuck: "l_size vertices > 3
        \<and> naiveBody h vertices triangles = Inr (h, vertices, triangles)"
    with run have "loop h vertices triangles = Some y" by simp
    from IH[OF this] stuck show False by simp
  qed
qed

lemma naiveLoop_stuck:
  assumes "l_size vertices > 3"
    and "naiveBody h vertices triangles = Inr (h, vertices, triangles)"
  shows "naiveLoop h vertices triangles = None"
proof (cases "naiveLoop h vertices triangles")
  case None
  then show ?thesis .
next
  case (Some y)
  from naiveLoop_not_stuck[OF Some] assms show ?thesis by simp
qed

lemma naiveLoop_throws:
  assumes "l_size vertices > 3"
    and "naiveBody h vertices triangles = Inl e"
  shows "naiveLoop h vertices triangles = Some (Inl e)"
  using assms by (subst naiveLoop.simps) simp

text \<open>
  Claim C2 asks that every iteration of the naive loop clip an ear or advance the scan,
  and that a pass without an ear end in the error for a missing ear, never in an endless
  loop. The loop of \<^verbatim>\<open>naiveEarCutting\<close> does neither. Started on a linked boundary of more
  than three vertices, it looks at the head only: where the angle at the head is convex
  the ear test dereferences its missing fourth argument and the loop ends in a TypeError;
  where it is not, the iteration changes nothing and the loop never returns.
\<close>

theorem naiveLoop_throws_or_never_returns:
  assumes "3 < l_size vertices"
    and "l_head vertices = Some v" and "v_prev (h v) = Some p" and "v_next (h v) = Some n"
  shows "naiveLoop h vertices triangles =
           (if isConvex (v_point (h p)) (v_point (h v)) (v_point (h n))
            then Some (Inl TypeError) else None)"
  using assms naiveBody_linked[where h = h and v = v and triangles = triangles, OF assms(2-4)]
  by (simp add: naiveLoop_throws naiveLoop_stuck)

theorem naiveLoop_throws_or_never_returns_witness:
  "3 < l_size (ringList square) \<and> l_head (ringList square) = Some 0
   \<and> v_prev (ringHeap square 0) = Some 3 \<and> v_next (ringHeap square 0) = Some 1
   \<and> naiveLoop (ringHeap square) (ringList square) [] = None"
proof -
  have 1: "3 < l_size (ringList square)" by (simp add: ringList_def length_square)
  have 2: "l_head (ringList square) = Some 0" by (simp add: ringList_def)
  note 3 = square_prev(1) and 4 = square_next(1)
  from naiveLoop_throws_or_never_returns
         [where h = "ringHeap square" and v = 0 and triangles = "[]", OF 1 2 3 4] 1 2 3 4
  show ?thesis
    by (simp add: square_points square_corner_not_convex)
qed

subsection \<open>The closing triangle\<close>

text \<open>
  Past the list construction, nothing in the naive driver looks at the orientation of the
  last three vertices: on the linked boundary of the collinear fixture the loop is skipped
  and the closing step hands back the three points as a triangle.
\<close>

lemma collinear3_closing_step:
  "naiveLoop (ringHeap collinear3) (ringList collinear3) []
     = Some (Inr (ringHeap collinear3, ringList collinear3, []))"
  "lastTriangle (ringHeap collinear3) (ringList collinear3) = Inr ((Finite 0, Finite 0), (Finite 1, Finite 0), (Finite 2, Finite 0))"
  "getOrientation (pt 0 0 0) (pt 1 1 0) (pt 2 2 0) = 0"
proof -
  have len: "length collinear3 = 3" by (simp add: collinear3_def)
  show "naiveLoop (ringHeap collinear3) (ringList collinear3) []
     = Some (Inr (ringHeap collinear3, ringList collinear3, []))"
    by (subst naiveLoop.simps) (simp add: ringList_def len)
  show "lastTriangle (ringHeap collinear3) (ringList collinear3) = Inr ((Finite 0, Finite 0), (Finite 1, Finite 0), (Finite 2, Finite 0))"
    by (simp add: lastTriangle_def ringList_def ringHeap_fields len)
       (simp add: collinear3_def slice_def pt_def)
  show "getOrientation (pt 0 0 0) (pt 1 1 0) (pt 2 2 0) = 0"
    by (simp add: getOrientation_def cross_def pt_def jsGreater0_def jsLess0_def signOf_def
        Let_def)
qed

section \<open>The ear test\<close>

lemma isWithinTriangle_total:
  "getOrientation a b c \<noteq> 0 \<Longrightarrow> \<exists>w. isWithinTriangle p a b c = Inr w"
  by (auto simp: isWithinTriangle_def Let_def)

lemma isEarLoop_nodes:
  assumes "getOrientation a b c \<noteq> 0"
  shows "nodesFrom h cur n = Some rs \<Longrightarrow>
         isEarLoop h a b c cur n =
           Inr (\<not> (\<exists>r\<in>set rs.
                     \<not> sameObject (v_point (h r)) a \<and> \<not> sameObject (v_point (h r)) b
                     \<and> \<not> sameObject (v_point (h r)) c
                     \<and> isWithinTriangle (v_point (h r)) a b c = Inr True))"
proof (induction n arbitrary: cur rs)
  case 0
  then show ?case by simp
next
  case (Suc n)
  from Suc.prems obtain cr rs' where cur: "cur = Some cr"
    and rest: "nodesFrom h (v_next (h cr)) n = Some rs'" and rs: "rs = cr # rs'"
    by (auto split: option.splits)
  note IH = Suc.IH[OF rest]
  from isWithinTriangle_total[OF assms] obtain w
    where w: "isWithinTriangle (v_point (h cr)) a b c = Inr w" by blast
  show ?case
    using cur rs IH w by (auto simp: Let_def)
qed

text \<open>
  Claim C4, with ``not equal'' read as the code tests it.
  \<^verbatim>\<open>isEar(prev, vertex, next, candidates)\<close> returns false when the angle at \<open>vertex\<close> is
  not convex, whatever the candidates. On a candidate list whose \<^verbatim>\<open>size\<close> nodes can be
  walked from its head, it returns false when some candidate point that is not the same
  array as \<open>prev\<close>, \<open>vertex\<close> or \<open>next\<close> (the test \<^verbatim>\<open>===\<close> of the code) lies in the
  triangle by \<^verbatim>\<open>isWithinTriangle\<close>, and true in all other cases; it does not fail. A
  candidate in another array at the coordinates of \<open>prev\<close>, \<open>vertex\<close> or \<open>next\<close> is not
  skipped.
\<close>

theorem isEar_cases:
  assumes "nodesFrom h (l_head l) (nat (l_size l)) = Some rs"
  shows "(\<not> isConvex prev vertex nxt \<longrightarrow> isEar h prev vertex nxt otherPoints = Inr False)
       \<and> isEar h prev vertex nxt (Some l) =
           Inr (isConvex prev vertex nxt
                \<and> \<not> (\<exists>r\<in>set rs.
                     \<not> sameObject (v_point (h r)) prev \<and> \<not> sameObject (v_point (h r)) vertex
                     \<and> \<not> sameObject (v_point (h r)) nxt
                     \<and> isWithinTriangle (v_point (h r)) prev vertex nxt = Inr True))"
proof (cases "isConvex prev vertex nxt")
  case False
  then show ?thesis by (simp add: isEar_def)
next
  case True
  then have "getOrientation prev vertex nxt \<noteq> 0" by (simp add: isConvex_def)
  from isEarLoop_nodes[OF this assms] True show ?thesis by (simp add: isEar_def)
qed

theorem isEar_cases_witness:
  "nodesFrom (ringHeap square) (l_head (ringList square)) (nat (l_size (ringList square)))
     = Some [0, 1, 2, 3]
   \<and> isEar (ringHeap square) (pt 1 4 0) (pt 0 0 0) (pt 3 0 4) (Some (ringList square)) = Inr True
   \<and> isEar (ringHeap square) (pt 3 0 4) (pt 0 0 0) (pt 1 4 0) (Some (ringList square)) = Inr False"
proof -
  have out: "isWithinTriangle (pt 2 4 4) (pt 1 4 0) (pt 0 0 0) (pt 3 0 4) = Inr False"
    by (simp add: isWithinTriangle_def getOrientation_def cross_def pt_def sameObject_def
        jsGreater0_def jsLess0_def signOf_def)
  from isEar_cases[OF nodesFrom_square, of "pt 1 4 0" "pt 0 0 0" "pt 3 0 4"]
    isEar_cases[OF nodesFrom_square, of "pt 3 0 4" "pt 0 0 0" "pt 1 4 0"]
  show ?thesis
    using nodesFrom_square square_corner_reversed_convex square_corner_not_convex out
    by (simp add: square_points sameObject_def pt_def)
qed

text \<open>
  With ``not equal'' read on the coordinates the statement fails. On the closed ring
  \<^verbatim>\<open>[[4,0],[0,0],[0,4],[4,0]]\<close> the corner \<open>(0, 0)\<close> is convex and each of the four
  candidates is at the coordinates of \<open>prev\<close>, \<open>vertex\<close> or \<open>next\<close>, so no candidate
  other than these three lies in the triangle; the last candidate is another array than
  \<open>prev\<close>, is tested, lies on the vertex \<open>prev\<close> of the triangle, and the answer is false.
\<close>

theorem isEar_closed_ring:
  "isConvex (pt 0 4 0) (pt 1 0 0) (pt 2 0 4)
   \<and> nodesFrom (ringHeap closedRing) (l_head (ringList closedRing))
        (nat (l_size (ringList closedRing))) = Some [0, 1, 2, 3]
   \<and> coincides (v_point (ringHeap closedRing 0)) (pt 0 4 0)
   \<and> coincides (v_point (ringHeap closedRing 1)) (pt 1 0 0)
   \<and> coincides (v_point (ringHeap closedRing 2)) (pt 2 0 4)
   \<and> coincides (v_point (ringHeap closedRing 3)) (pt 0 4 0)
   \<and> isEar (ringHeap closedRing) (pt 0 4 0) (pt 1 0 0) (pt 2 0 4) (Some (ringList closedRing))
       = Inr False"
proof -
  have len: "length closedRing = 4" by (simp add: closedRing_def)
  have nxt: "v_next (ringHeap closedRing 0) = Some 1"
    "v_next (ringHeap closedRing (Suc 0)) = Some 2"
    "v_next (ringHeap closedRing 2) = Some 3" "v_next (ringHeap closedRing 3) = Some 0"
    by (simp_all add: ringHeap_fields len)
  have pts: "v_point (ringHeap closedRing 0) = pt 0 4 0"
    "v_point (ringHeap closedRing (Suc 0)) = pt 1 0 0"
    "v_point (ringHeap closedRing 2) = pt 2 0 4" "v_point (ringHeap closedRing 3) = pt 3 4 0"
    by (simp_all add: ringHeap_fields len) (simp_all add: closedRing_def)
  have hd: "l_head (ringList closedRing) = Some 0"
    and sz: "nat (l_size (ringList closedRing)) = Suc (Suc (Suc (Suc 0)))"
    by (simp_all add: ringList_def len)
  have nodes: "nodesFrom (ringHeap closedRing) (Some 0) (Suc (Suc (Suc (Suc 0))))
                 = Some [0, 1, 2, 3]"
    by (simp add: nxt)
  have cvx: "isConvex (pt 0 4 0) (pt 1 0 0) (pt 2 0 4)"
    by (rule square_corner_reversed_convex)
  have inside: "isWithinTriangle (pt 3 4 0) (pt 0 4 0) (pt (Suc 0) 0 0) (pt 2 0 4) = Inr True"
    by (simp add: isWithinTriangle_def getOrientation_def cross_def pt_def sameObject_def
        jsGreater0_def jsLess0_def signOf_def Let_def)
  have same: "sameObject (pt 0 4 0) (pt 0 4 0)" "sameObject (pt (Suc 0) 0 0) (pt (Suc 0) 0 0)"
    "sameObject (pt 2 0 4) (pt 2 0 4)"
    "\<not> sameObject (pt 3 4 0) (pt 0 4 0)" "\<not> sameObject (pt 3 4 0) (pt (Suc 0) 0 0)"
    "\<not> sameObject (pt 3 4 0) (pt 2 0 4)"
    by (simp_all add: sameObject_def pt_def)
  have ear: "isEar (ringHeap closedRing) (pt 0 4 0) (pt 1 0 0) (pt 2 0 4)
               (Some (ringList closedRing)) = Inr False"
    unfolding isEar_def option.case hd sz using cvx
    by (simp add: nxt pts same inside Let_def)
  have co: "coincides (pt 0 4 0) (pt 0 4 0)" "coincides (pt 1 0 0) (pt 1 0 0)"
    "coincides (pt 2 0 4) (pt 2 0 4)" "coincides (pt 3 4 0) (pt 0 4 0)"
    by (simp_all add: coincides_def pt_def)
  show ?thesis
    using cvx nodes ear co unfolding hd sz by (simp add: pts)
qed

section \<open>Deleting a vertex\<close>

lemma delete_own_links:
  assumes "CircularList_delete h l (Some node) = Inr (h', l')"
  shows "v_next (h' node) = v_next (h node) \<and> v_prev (h' node) = v_prev (h node)"
  using assms
  by (auto simp: CircularList_delete_def Let_def split: if_splits option.splits)

text \<open>
  Claim C10. On a list of size at least 2, \<^verbatim>\<open>delete(node)\<close> of a node with both neighbours
  returns, and leaves the \<^verbatim>\<open>next\<close> and \<^verbatim>\<open>prev\<close> fields of the deleted node as they were,
  still pointing at the former neighbours. What it updates is the \<^verbatim>\<open>next\<close> of the
  predecessor, the \<^verbatim>\<open>prev\<close> of the successor, the head when the node was the head, and the
  size; no other link, no point and no flag changes. A second \<^verbatim>\<open>delete\<close> of the same node
  from another list, as the optimized driver does before it reads \<^verbatim>\<open>curr.prev\<close> and
  \<^verbatim>\<open>curr.next\<close>, leaves the two fields the same again.
\<close>

theorem CircularList_delete_keeps_own_links:
  assumes "2 \<le> l_size l" and "v_prev (h node) = Some p" and "v_next (h node) = Some n"
  shows "\<exists>h' l'. CircularList_delete h l (Some node) = Inr (h', l')
      \<and> v_next (h' node) = Some n \<and> v_prev (h' node) = Some p
      \<and> v_next (h' p) = Some n \<and> v_prev (h' n) = Some p
      \<and> l_size l' = l_size l - 1
      \<and> l_head l' = (if l_head l = Some node then Some n else l_head l)
      \<and> (\<forall>r. r \<noteq> p \<longrightarrow> v_next (h' r) = v_next (h r))
      \<and> (\<forall>r. r \<noteq> n \<longrightarrow> v_prev (h' r) = v_prev (h r))
      \<and> (\<forall>r. v_point (h' r) = v_point (h r) \<and> v_isConvex (h' r) = v_isConvex (h r)
              \<and> v_isEar (h' r) = v_isEar (h r))
      \<and> (\<forall>l2 h2 l2'. CircularList_delete h' l2 (Some node) = Inr (h2, l2') \<longrightarrow>
              v_next (h2 node) = Some n \<and> v_prev (h2 node) = Some p)"
proof -
  let ?h1 = "h(p := (h p)\<lparr>v_next := Some n\<rparr>)"
  let ?h' = "?h1(n := (?h1 n)\<lparr>v_prev := Some p\<rparr>)"
  let ?l1 = "if l_head l = Some node then l\<lparr>l_head := Some n\<rparr> else l"
  let ?l' = "?l1\<lparr>l_size := l_size ?l1 - 1\<rparr>"
  have del: "CircularList_delete h l (Some node) = Inr (?h', ?l')"
    using assms by (simp add: CircularList_delete_def Let_def)
  have own: "v_next (?h' node) = Some n" "v_prev (?h' node) = Some p"
    using assms by auto
  have twice: "v_next (h2 node) = Some n \<and> v_prev (h2 node) = Some p"
    if "CircularList_delete ?h' l2 (Some node) = Inr (h2, l2')" for l2 h2 l2'
    using delete_own_links[OF that] own by simp
  show ?thesis
    apply (rule exI[of _ ?h'], rule exI[of _ ?l'])
    using del own twice by auto
qed

theorem CircularList_delete_keeps_own_links_witness:
  "2 \<le> l_size (ringList square)
   \<and> v_prev (ringHeap square 0) = Some 3 \<and> v_next (ringHeap square 0) = Some 1
   \<and> (\<exists>h' l'. CircularList_delete (ringHeap square) (ringList square) (Some 0) = Inr (h', l')
        \<and> v_next (h' 0) = Some 1 \<and> v_prev (h' 0) = Some 3
        \<and> v_next (h' 3) = Some 1 \<and> v_prev (h' 1) = Some 3
        \<and> l_size l' = 3 \<and> l_head l' = Some 1)"
proof -
  have 1: "2 \<le> l_size (ringList square)" by (simp add: ringList_def length_square)
  note 2 = square_prev(1) and 3 = square_next(1)
  have 4: "l_head (ringList square) = Some 0" "l_size (ringList square) = 4"
    by (simp_all add: ringList_def length_square)
  from CircularList_delete_keeps_own_links
         [where h = "ringHeap square" and node = 0 and l = "ringList square", OF 1 2 3]
  obtain h' l' where
    "CircularList_delete (ringHeap square) (ringList square) (Some 0) = Inr (h', l')"
    "v_next (h' 0) = Some 1" "v_prev (h' 0) = Some 3"
    "v_next (h' 3) = Some 1" "v_prev (h' 1) = Some 3"
    "l_size l' = l_size (ringList square) - 1"
    "l_head l' = (if l_head (ringList square) = Some 0 then Some 1 else l_head (ringList square))"
    by blast
  with 1 2 3 4 show ?thesis by simp
qed

section \<open>The convex and concave lists of the optimized driver\<close>

text \<open>
  A vertex that \<^verbatim>\<open>insert\<close> has just made the only node of a list is linked to itself, so
  the pass meets it again: its angle is now that of three times the same point, which is
  not convex, and it goes to the concave list.
\<close>

lemma fillLists_self_linked_full:
  assumes "v_next (o_heap s c) = Some c" "v_prev (o_heap s c) = Some c"
    and "l_head (o_concave s) \<noteq> None"
  shows "fillLists (Suc n) (Some c) s = Inl TypeError"
  using assms by (auto simp: pointOf_def isConvex_same insert_no_predecessor Let_def)

lemma fillLists_self_linked:
  assumes "v_next (o_heap s c) = Some c" "v_prev (o_heap s c) = Some c"
  shows "fillLists (Suc (Suc n)) (Some c) s = Inl TypeError"
proof (cases "l_head (o_concave s) = None")
  case False
  with assms show ?thesis by (rule fillLists_self_linked_full)
next
  case True
  let ?h' = "(o_heap s)(c := (o_heap s c)\<lparr>v_isConvex := False, v_next := Some c, v_prev := Some c\<rparr>)"
  let ?s' = "s\<lparr>o_heap := ?h',
                o_concave := (o_concave s)\<lparr>l_head := Some c, l_size := l_size (o_concave s) + 1\<rparr>\<rparr>"
  have step: "fillLists (Suc (Suc n)) (Some c) s = fillLists (Suc n) (Some c) ?s'"
    using assms True by (auto simp: pointOf_def isConvex_same insert_no_predecessor Let_def)
  have "fillLists (Suc n) (Some c) ?s' = Inl TypeError"
    by (rule fillLists_self_linked_full) simp_all
  with step show ?thesis by simp
qed

text \<open>
  Claim C5 asks that every vertex of the boundary be in exactly one of the convex and the
  concave list throughout a run of the optimized driver. The pass that is to put them
  there cannot finish: on any boundary of three or more vertices, whatever the links and
  the two lists it starts from, ``fill the concave and convex lists'' ends in a TypeError.
  Its first insertion links the vertex to itself, in the very fields that hold the
  boundary; the pass then stays on that vertex and inserts it a second or third time into
  a list that has a head, with no predecessor.
\<close>

theorem fillLists_never_completes:
  assumes "3 \<le> n"
  shows "fillLists n cur s = Inl TypeError"
proof -
  from assms obtain m where n: "n = Suc (Suc (Suc m))"
    by (metis Suc_le_D numeral_3_eq_3 Suc_le_mono)
  show ?thesis
  proof (cases cur)
    case None
    then show ?thesis by (simp add: n)
  next
    case (Some c)
    let ?h = "o_heap s"
    show ?thesis
    proof (cases "pointOf ?h (v_prev (?h c))")
      case (Inl e)
      then show ?thesis using Some n by (auto simp: pointOf_def split: option.splits)
    next
      case pp: (Inr pp)
      show ?thesis
      proof (cases "pointOf ?h (v_next (?h c))")
        case (Inl e)
        then show ?thesis using Some n pp by (auto simp: pointOf_def split: option.splits)
      next
        case np: (Inr np)
        show ?thesis
        proof (cases "isConvex pp (v_point (?h c)) np")
          case True
          show ?thesis
          proof (cases "l_head (o_convex s) = None")
            case False
            then show ?thesis using Some n pp np True
              by (auto simp: insert_no_predecessor Let_def)
          next
            case e: True
            let ?h' = "?h(c := (?h c)\<lparr>v_isConvex := True, v_next := Some c, v_prev := Some c\<rparr>)"
            let ?s' = "s\<lparr>o_heap := ?h',
                          o_convex := (o_convex s)\<lparr>l_head := Some c,
                                                   l_size := l_size (o_convex s) + 1\<rparr>\<rparr>"
            have "fillLists n cur s = fillLists (Suc (Suc m)) (Some c) ?s'"
              using Some n pp np True e by (auto simp: insert_no_predecessor Let_def)
            also have "\<dots> = Inl TypeError"
              by (rule fillLists_self_linked) simp_all
            finally show ?thesis .
          qed
        next
          case False
          show ?thesis
          proof (cases "l_head (o_concave s) = None")
            case nf: False
            then show ?thesis using Some n pp np False
              by (auto simp: insert_no_predecessor Let_def)
          next
            case e: True
            let ?h' = "?h(c := (?h c)\<lparr>v_isConvex := False, v_next := Some c, v_prev := Some c\<rparr>)"
            let ?s' = "s\<lparr>o_heap := ?h',
                          o_concave := (o_concave s)\<lparr>l_head := Some c,
                                                     l_size := l_size (o_concave s) + 1\<rparr>\<rparr>"
            have "fillLists n cur s = fillLists (Suc (Suc m)) (Some c) ?s'"
              using Some n pp np False e by (auto simp: insert_no_predecessor Let_def)
            also have "\<dots> = Inl TypeError"
              by (rule fillLists_self_linked) simp_all
            finally show ?thesis .
          qed
        qed
      qed
    qed
  qed
qed

theorem fillLists_never_completes_witness:
  "3 \<le> nat (l_size (ringList square))
   \<and> fillLists (nat (l_size (ringList square))) (l_head (ringList square))
       \<lparr>o_heap = ringHeap square, o_vertices = ringList square, o_concave = newCircularList,
        o_convex = newCircularList, o_triangles = []\<rparr> = Inl TypeError"
proof -
  have n: "3 \<le> nat (l_size (ringList square))" by (simp add: ringList_def length_square)
  from fillLists_never_completes[OF n] n show ?thesis by simp
qed

subsection \<open>The update of the neighbours\<close>

text \<open>
  The block that updates a neighbour after a clip. A neighbour whose angle is still not
  convex is inserted into the concave list again, which throws as soon as that list has a
  head. A neighbour whose angle is convex is flagged, and with a convex list that has a
  head and the block returning, that is all: it is put into no list and taken out of none.
\<close>

lemma updateConvexity_still_concave:
  assumes "v_prev (o_heap s c) = Some p" "v_next (o_heap s c) = Some n"
    and "\<not> isConvex (v_point (o_heap s p)) (v_point (o_heap s c)) (v_point (o_heap s n))"
    and "l_head (o_concave s) \<noteq> None"
  shows "updateConvexity (Some c) s = Inl TypeError"
  using assms by (auto simp: updateConvexity_def pointOf_def insert_no_predecessor Let_def)

lemma updateConvexity_now_convex:
  assumes "v_prev (o_heap s c) = Some p" "v_next (o_heap s c) = Some n"
    and "isConvex (v_point (o_heap s p)) (v_point (o_heap s c)) (v_point (o_heap s n))"
    and "l_head (o_convex s) \<noteq> None"
    and "updateConvexity (Some c) s = Inr s'"
  shows "s' = s\<lparr>o_heap := (o_heap s)(c := (o_heap s c)\<lparr>v_isConvex := True\<rparr>)\<rparr>"
  using assms
  by (auto simp: updateConvexity_def pointOf_def insert_no_predecessor Let_def
      split: if_splits option.splits)

section \<open>The naive driver of the class\<close>

text \<open>
  What the loop of \<^verbatim>\<open>naiveEarCutting\<close> misses is there in \<^verbatim>\<open>naiveTriangulation\<close>. Its scan
  goes on to the next index past every vertex that is not an ear, and stops at the first
  ear; a scan that reaches the end has found no ear at any index, and the driver then
  throws the error for a missing ear.
\<close>

lemma findEar_none:
  "findEar points vs i = Inr None \<Longrightarrow>
   \<forall>k. i \<le> k \<and> k < length vs \<longrightarrow>
       PolygonTriangulation_isEar points (vs ! k) (Some vs) = Inr False"
proof (induction points vs i rule: findEar.induct)
  case (1 points vs i)
  show ?case
  proof (cases "i < length vs")
    case False
    then show ?thesis by auto
  next
    case True
    from "1.prems" True obtain ear where
      ear: "PolygonTriangulation_isEar points (vs ! i) (Some vs) = Inr ear"
      by (subst (asm) findEar.simps) (auto split: sum.splits)
    with "1.prems" True have ne: "\<not> ear" and rest: "findEar points vs (i + 1) = Inr None"
      by (subst (asm) findEar.simps, auto split: if_splits)+
    note IH = "1.IH"[OF True ear ne rest]
    show ?thesis
    proof (intro allI impI)
      fix k
      assume k: "i \<le> k \<and> k < length vs"
      show "PolygonTriangulation_isEar points (vs ! k) (Some vs) = Inr False"
      proof (cases "k = i")
        case True
        with ear ne show ?thesis by simp
      next
        case False
        with k have "i + 1 \<le> k \<and> k < length vs" by simp
        with IH show ?thesis by blast
      qed
    qed
  qed
qed

lemma findEar_first:
  "findEar points vs i = Inr (Some k) \<Longrightarrow>
   i \<le> k \<and> k < length vs
   \<and> PolygonTriangulation_isEar points (vs ! k) (Some vs) = Inr True
   \<and> (\<forall>j. i \<le> j \<and> j < k \<longrightarrow>
          PolygonTriangulation_isEar points (vs ! j) (Some vs) = Inr False)"
proof (induction points vs i rule: findEar.induct)
  case (1 points vs i)
  from "1.prems" have lt: "i < length vs"
    by (subst (asm) findEar.simps) (auto split: if_splits)
  from "1.prems" lt obtain ear where
    ear: "PolygonTriangulation_isEar points (vs ! i) (Some vs) = Inr ear"
    by (subst (asm) findEar.simps) (auto split: sum.splits)
  show ?case
  proof (cases ear)
    case True
    with "1.prems" lt ear have "k = i" by (subst (asm) findEar.simps) simp
    with True ear lt show ?thesis by auto
  next
    case False
    with "1.prems" lt ear have rest: "findEar points vs (i + 1) = Inr (Some k)"
      by (subst (asm) findEar.simps) simp
    note IH = "1.IH"[OF lt ear False rest]
    have "PolygonTriangulation_isEar points (vs ! j) (Some vs) = Inr False"
      if j: "i \<le> j \<and> j < k" for j
    proof (cases "j = i")
      case True
      with ear False show ?thesis by simp
    next
      case ne: False
      with j have "i + 1 \<le> j \<and> j < k" by simp
      with IH show ?thesis by blast
    qed
    moreover have "i \<le> k" using IH by simp
    ultimately show ?thesis using IH by blast
  qed
qed

lemma clipLoop_no_ear:
  assumes "3 < length vs" and "findEar points vs 0 = Inr None"
  shows "clipLoop points vs ts = Some (Inl NoEarFoundError)"
  using assms by (subst clipLoop.simps) simp

text \<open>
  The indices in \<^verbatim>\<open>remainingVertices\<close> stay distinct and below the number of points, so
  no read is out of range and nothing throws but the missing ear. The driver always
  returns: with that error, or with \<open>n - 2\<close> triangles; for fewer than three points with
  the empty list, where \<^verbatim>\<open>naiveEarCutting\<close> throws.
\<close>

lemma jsRem_nonneg: "0 \<le> a \<Longrightarrow> 0 < b \<Longrightarrow> jsRem a b = Some (a mod b)"
  by (simp add: jsRem_def sgn_if)

lemma indexOf_nth:
  "distinct xs \<Longrightarrow> i < length xs \<Longrightarrow> indexOf xs (xs ! i) = int i"
proof (induction xs arbitrary: i)
  case Nil
  then show ?case by simp
next
  case (Cons x xs)
  show ?case
  proof (cases i)
    case 0
    then show ?thesis by simp
  next
    case (Suc k)
    with Cons.prems have k: "k < length xs" and d: "distinct xs" and nx: "xs ! k \<noteq> x"
      by auto
    from Cons.IH[OF d k] nx Suc show ?thesis by auto
  qed
qed

text \<open>A neighbour read at an index taken modulo the length is a member of the array.\<close>

lemma elemAt_mod:
  assumes "xs \<noteq> []" and "0 \<le> a"
  shows "\<exists>v \<in> set xs. elemAt xs (jsRem a (int (length xs))) = Some v"
proof -
  have l: "0 < int (length xs)" using assms(1) by simp
  have m: "0 \<le> a mod int (length xs)" "a mod int (length xs) < int (length xs)"
    using l by simp_all
  then have "nat (a mod int (length xs)) < length xs" by simp
  then have mem: "xs ! nat (a mod int (length xs)) \<in> set xs" by (rule nth_mem)
  have "elemAt xs (jsRem a (int (length xs))) = Some (xs ! nat (a mod int (length xs)))"
    using assms(2) l m by (simp add: jsRem_nonneg elemAt_def)
  with mem show ?thesis by blast
qed

lemma pointsAt_in_range: "v < length points \<Longrightarrow> \<exists>p. pointsAt points (Some v) = Some p"
  by (simp add: pointsAt_def elemAt_def)

lemma otherPointInside_returns:
  assumes "\<forall>v \<in> set js. v < length points"
    and "pointsAt points prev = Some a" "pointsAt points (Some i) = Some b"
    and "pointsAt points nxt = Some c"
  shows "\<exists>r. otherPointInside points js i prev nxt = Inr r"
  using assms
proof (induction js)
  case Nil
  show ?case by auto
next
  case (Cons j js)
  then obtain p where p: "pointsAt points (Some j) = Some p"
    using pointsAt_in_range[of j points] by auto
  from Cons have IH: "\<exists>r. otherPointInside points js i prev nxt = Inr r" by simp
  show ?case
    using IH p Cons.prems(2-4) by (auto simp: pointInTriangle_def Let_def)
qed

lemma PolygonTriangulation_isEar_unfold:
  assumes idx: "indexOf vs i = int k"
    and pv: "elemAt vs (jsRem (int k - 1 + int (length vs)) (int (length vs))) = Some pv"
    and nv: "elemAt vs (jsRem (int k + 1) (int (length vs))) = Some nv"
    and abc: "pointsAt points (Some pv) = Some a" "pointsAt points (Some i) = Some b"
      "pointsAt points (Some nv) = Some c"
  shows "PolygonTriangulation_isEar points i (Some vs) =
          (if \<not> jsGreater0
                   (jsSub (jsMul (jsSub (p_x b) (p_x a)) (jsSub (p_y c) (p_y a)))
                      (jsMul (jsSub (p_y b) (p_y a)) (jsSub (p_x c) (p_x a))))
           then Inr False
           else otherPointInside points vs i (Some pv) (Some nv))"
  unfolding PolygonTriangulation_isEar_def Let_def option.case idx pv nv abc
    isTriangleOrientedCCW_def
  by simp

lemma PolygonTriangulation_isEar_returns:
  assumes "distinct vs" and "\<forall>v \<in> set vs. v < length points" and "k < length vs"
  shows "\<exists>r. PolygonTriangulation_isEar points (vs ! k) (Some vs) = Inr r"
proof -
  have ne: "vs \<noteq> []" using assms(3) by auto
  have idx: "indexOf vs (vs ! k) = int k" by (rule indexOf_nth[OF assms(1,3)])
  have i: "vs ! k < length points" using assms(2,3) by simp
  have nonneg: "0 \<le> int k - 1 + int (length vs)" "0 \<le> int k + 1" using assms(3) by linarith+
  from elemAt_mod[OF ne nonneg(1)]
  obtain pv where pv: "pv \<in> set vs"
    "elemAt vs (jsRem (int k - 1 + int (length vs)) (int (length vs))) = Some pv" by blast
  from elemAt_mod[OF ne nonneg(2)]
  obtain nv where nv: "nv \<in> set vs" "elemAt vs (jsRem (int k + 1) (int (length vs))) = Some nv"
    by blast
  have "pv < length points" "nv < length points" using pv(1) nv(1) assms(2) by blast+
  then obtain a c where ac: "pointsAt points (Some pv) = Some a"
    "pointsAt points (Some nv) = Some c"
    using pointsAt_in_range by blast
  obtain b where b: "pointsAt points (Some (vs ! k)) = Some b"
    using pointsAt_in_range[OF i] by blast
  from otherPointInside_returns[OF assms(2) ac(1) b ac(2)]
  obtain r where r: "otherPointInside points vs (vs ! k) (Some pv) (Some nv) = Inr r" ..
  show ?thesis
    unfolding PolygonTriangulation_isEar_unfold[OF idx pv(2) nv(2) ac(1) b ac(2)] r by auto
qed

lemma findEar_returns:
  assumes "distinct vs" and "\<forall>v \<in> set vs. v < length points"
  shows "findEar points vs i = Inr None \<or> (\<exists>k. findEar points vs i = Inr (Some k) \<and> k < length vs)"
proof (induction "length vs - i" arbitrary: i)
  case 0
  then have "\<not> i < length vs" by simp
  then show ?case by (subst findEar.simps) simp
next
  case (Suc d)
  then have lt: "i < length vs" and d: "d = length vs - (i + 1)" by simp_all
  from PolygonTriangulation_isEar_returns[OF assms lt]
  obtain r where r: "PolygonTriangulation_isEar points (vs ! i) (Some vs) = Inr r" ..
  show ?case
  proof (cases r)
    case True
    with r lt show ?thesis by (subst findEar.simps) simp
  next
    case False
    with r lt have "findEar points vs i = findEar points vs (i + 1)"
      by (subst findEar.simps) simp
    with Suc.hyps(1)[OF d] show ?thesis by simp
  qed
qed

lemma splice1_props:
  assumes "distinct vs" and "\<forall>v \<in> set vs. v < n" and "k < length vs"
  shows "distinct (splice1 vs k)" and "\<forall>v \<in> set (splice1 vs k). v < n"
    and "length (splice1 vs k) = length vs - 1"
proof -
  have "vs = take k vs @ vs ! k # drop (Suc k) vs"
    using assms(3) by (simp add: id_take_nth_drop)
  then have d: "distinct (take k vs @ vs ! k # drop (Suc k) vs)" using assms(1) by simp
  then show "distinct (splice1 vs k)" by (simp add: splice1_def)
  show "\<forall>v \<in> set (splice1 vs k). v < n"
    using assms(2) by (auto simp: splice1_def dest: in_set_takeD in_set_dropD)
  show "length (splice1 vs k) = length vs - 1"
    using assms(3) by (simp add: splice1_def)
qed

lemma clipLoop_returns:
  assumes "distinct vs" and "\<forall>v \<in> set vs. v < length points" and "3 \<le> length vs"
  shows "clipLoop points vs ts = Some (Inl NoEarFoundError)
       \<or> (\<exists>vs' ts'. clipLoop points vs ts = Some (Inr (vs', ts'))
            \<and> length vs' = 3 \<and> length ts' = length ts + (length vs - 3))"
  using assms
proof (induction "length vs" arbitrary: vs ts rule: less_induct)
  case less
  show ?case
  proof (cases "length vs > 3")
    case False
    with less.prems(3) have "length vs = 3" by simp
    then show ?thesis by (subst clipLoop.simps) simp
  next
    case True
    from findEar_returns[OF less.prems(1,2), of 0] show ?thesis
    proof
      assume "findEar points vs 0 = Inr None"
      with True show ?thesis by (subst clipLoop.simps) simp
    next
      assume "\<exists>k. findEar points vs 0 = Inr (Some k) \<and> k < length vs"
      then obtain k where k: "findEar points vs 0 = Inr (Some k)" "k < length vs" by blast
      note sp = splice1_props[OF less.prems(1,2) k(2)]
      let ?vs = "splice1 vs k"
      have smaller: "length ?vs < length vs" using sp(3) True by simp
      have three: "3 \<le> length ?vs" using sp(3) True by simp
      let ?n = "int (length vs)"
      let ?t = "(pointsAt points (elemAt vs (jsRem (int k - 1 + ?n) ?n)),
                 pointsAt points (elemAt vs (Some (int k))),
                 pointsAt points (elemAt vs (jsRem (int k + 1) ?n)))"
      have step: "clipLoop points vs ts = clipLoop points ?vs (ts @ [?t])"
        using True k(1) by (subst clipLoop.simps) (simp add: Let_def)
      from less.hyps[OF smaller sp(1) sp(2) three, of "ts @ [?t]"]
      show ?thesis
        using step sp(3) True by auto
    qed
  qed
qed

lemma upt_props: "distinct [0..<n]" "\<forall>v \<in> set [0..<n]. v < n" "length [0..<n] = n"
  by simp_all

lemma PolygonTriangulation_naiveTriangulation_returns:
  "PolygonTriangulation_naiveTriangulation points = Some (Inl NoEarFoundError)
   \<or> (\<exists>ts. PolygonTriangulation_naiveTriangulation points = Some (Inr ts)
         \<and> length ts = (if length points < 3 then 0 else length points - 2))"
proof (cases "length points < 3")
  case True
  then show ?thesis by (simp add: PolygonTriangulation_naiveTriangulation_def)
next
  case False
  then have three: "3 \<le> length [0..<length points]" by simp
  from clipLoop_returns[OF upt_props(1) upt_props(2) three, of "[]"]
  show ?thesis
    using False by (auto simp: PolygonTriangulation_naiveTriangulation_def)
qed

text \<open>
  On the square fixture the class clips the corner \<open>(0, 0)\<close> and returns two triangles of
  area 8 each.
\<close>

lemma PolygonTriangulation_naiveTriangulation_short:
  "length points < 3 \<Longrightarrow> PolygonTriangulation_naiveTriangulation points = Some (Inr [])"
  by (simp add: PolygonTriangulation_naiveTriangulation_def)

lemma squareXY_points:
  "pointsAt squareXY (Some 0) = Some (xy 0 0)" "pointsAt squareXY (Some (Suc 0)) = Some (xy 4 0)"
  "pointsAt squareXY (Some 1) = Some (xy 4 0)"
  "pointsAt squareXY (Some 2) = Some (xy 4 4)" "pointsAt squareXY (Some 3) = Some (xy 0 4)"
  by (simp_all add: pointsAt_def elemAt_def squareXY_def)

lemma PolygonTriangulation_isEar_square:
  "PolygonTriangulation_isEar squareXY 0 (Some [0, Suc 0, 2, 3]) = Inr True"
  by (simp add: PolygonTriangulation_isEar_def jsRem_nonneg elemAt_def squareXY_points
      isTriangleOrientedCCW_def pointInTriangle_def signXY_def xy_def Let_def
      jsGreater0_def jsLess0_def signOf_def)

lemma findEar_square: "findEar squareXY [0, Suc 0, 2, 3] 0 = Inr (Some 0)"
  by (subst findEar.simps) (simp add: PolygonTriangulation_isEar_square)

lemma clipLoop_square:
  "clipLoop squareXY [0, Suc 0, 2, 3] [] =
     Some (Inr ([Suc 0, 2, 3], [(Some (xy 0 4), Some (xy 0 0), Some (xy 4 0))]))"
  apply (subst clipLoop.simps)
  apply (simp add: findEar_square jsRem_nonneg elemAt_def squareXY_points splice1_def)
  apply (subst clipLoop.simps)
  apply simp
  done

lemma upt4: "[0..<4] = [0, Suc 0, 2, 3]"
  by (simp add: upt_rec numeral_eq_Suc)

lemma PolygonTriangulation_naiveTriangulation_square:
  "PolygonTriangulation_naiveTriangulation squareXY =
     Some (Inr [(Some (xy 0 4), Some (xy 0 0), Some (xy 4 0)),
                (Some (xy 4 0), Some (xy 4 4), Some (xy 0 4))])"
proof -
  have len: "length squareXY = 4" by (simp add: squareXY_def)
  show ?thesis
    by (simp add: PolygonTriangulation_naiveTriangulation_def len upt4 clipLoop_square elemAt_def squareXY_points)
qed

lemma triangleArea_square:
  "triangleArea (Some (xy 0 4), Some (xy 0 0), Some (xy 4 0)) = Some 8"
  "triangleArea (Some (xy 4 0), Some (xy 4 4), Some (xy 0 4)) = Some 8"
  by (simp_all add: triangleArea_def xy_def)

text \<open>
  On the three collinear points the class skips its loop and returns the three points as
  one triangle: it has no check of the last three vertices either.
\<close>

lemma upt3: "[0..<3] = [0, Suc 0, 2]"
  by (simp add: upt_rec numeral_eq_Suc)

lemma PolygonTriangulation_naiveTriangulation_collinear:
  "PolygonTriangulation_naiveTriangulation collinearXY =
     Some (Inr [(Some (xy 0 0), Some (xy 1 0), Some (xy 2 0))])"
proof -
  have len: "length collinearXY = 3" by (simp add: collinearXY_def)
  have "clipLoop collinearXY [0, Suc 0, 2] [] = Some (Inr ([0, Suc 0, 2], []))"
    by (subst clipLoop.simps) simp
  then show ?thesis
    by (simp add: PolygonTriangulation_naiveTriangulation_def len upt3 elemAt_def pointsAt_def)
       (simp add: collinearXY_def)
qed

end
